theory Spec2Isabelle
  imports Complex_Main
begin

section \<open>Python values shared by the modules\<close>

text \<open>
  A Python \<open>str\<close> is modelled by its UTF-8 bytes (a \<open>string\<close>), so that
  \<open>len(v) == 0\<close> is emptiness of the list and \<open>str.encode()\<close> keeps the bytes.
  A \<open>datetime\<close> is an integer number of microseconds, the resolution of
  \<open>datetime.datetime\<close>; a \<open>timedelta\<close> is the difference of two of them.
\<close>

type_synonym bytes = string
type_synonym datetime = int
type_synonym timedelta = int

datatype error =
    ValueError
  | ValidationError
  | TypeError
  | KeyError
  | AttributeError
  | IndexError
  | FileNotFoundError
  | FileExistsError
  | IsADirectoryError
  | NotADirectoryError
  | ComputeError
  | DatabaseError
  | LibraryError

definition encode :: "string \<Rightarrow> bytes" where
  "encode s = s"

definition timedelta_seconds :: "int \<Rightarrow> timedelta" where
  "timedelta_seconds s = s * 1000000"

section \<open>library/user\_db.py\<close>

subsection \<open>The credential backends\<close>

text \<open>
  A value of the \<open>hashed_password\<close> column as the driver hands it over: bytes,
  text, or NULL. A backend is unreachable, reachable without the queried table,
  or holds the rows of the table in the order the cursor yields them.
\<close>

datatype db_value = DbBytes bytes | DbStr string | DbNull

datatype database = Unreachable | NoTable | Table "(string \<times> db_value) list"

record environment =
  sqlite_db :: database
  DATABASE_URL :: "string option"
  postgresql_db :: database
  checkpw :: "bytes \<Rightarrow> bytes \<Rightarrow> error + bool"

definition check_sqlite_db_present :: "environment \<Rightarrow> bool" where
  "check_sqlite_db_present env = (sqlite_db env \<noteq> Unreachable)"

fun select_password :: "string \<Rightarrow> (string \<times> db_value) list \<Rightarrow> db_value \<Rightarrow> db_value" where
  "select_password username [] retrieved = retrieved"
| "select_password username ((user, hpw) # rows) retrieved =
     select_password username rows (if user = username then hpw else retrieved)"

definition get_user_password_in_sqlite_db :: "environment \<Rightarrow> string \<Rightarrow> error + db_value" where
  "get_user_password_in_sqlite_db env username =
     (case sqlite_db env of
        Unreachable \<Rightarrow> Inl DatabaseError
      | NoTable \<Rightarrow> Inl DatabaseError
      | Table rows \<Rightarrow> Inr (select_password username rows (DbBytes [])))"

definition get_railway_postgresql_connection_string :: "environment \<Rightarrow> string option" where
  "get_railway_postgresql_connection_string env = DATABASE_URL env"

definition check_postgresql_db_present :: "environment \<Rightarrow> bool" where
  "check_postgresql_db_present env =
     (case get_railway_postgresql_connection_string env of
        None \<Rightarrow> False
      | Some connection_string \<Rightarrow> postgresql_db env \<noteq> Unreachable)"

definition str_to_bytes :: "db_value \<Rightarrow> db_value" where
  "str_to_bytes hpw = (case hpw of DbStr s \<Rightarrow> DbBytes (encode s) | _ \<Rightarrow> hpw)"

definition get_user_password_in_postgresql_db :: "environment \<Rightarrow> string \<Rightarrow> error + db_value" where
  "get_user_password_in_postgresql_db env username =
     (case get_railway_postgresql_connection_string env of
        None \<Rightarrow> Inl ValueError
      | Some connection_string \<Rightarrow>
          (case postgresql_db env of
             Unreachable \<Rightarrow> Inl DatabaseError
           | NoTable \<Rightarrow> Inl DatabaseError
           | Table rows \<Rightarrow>
               Inr (select_password username (map (\<lambda>(user, hpw). (user, str_to_bytes hpw)) rows)
                      (DbBytes []))))"

text \<open>
  \<open>bcrypt.checkpw\<close> is the library's; it raises on a hash that is not bytes and may
  raise on a malformed one, which is why the environment's \<open>checkpw\<close> returns a sum.
\<close>

definition bcrypt_checkpw :: "environment \<Rightarrow> bytes \<Rightarrow> db_value \<Rightarrow> error + bool" where
  "bcrypt_checkpw env bytes_password hashed =
     (case hashed of DbBytes h \<Rightarrow> checkpw env bytes_password h | _ \<Rightarrow> Inl TypeError)"

subsection \<open>User\<close>

record User =
  username :: string
  password :: string

definition min_length :: "string \<Rightarrow> error + string" where
  "min_length v = (if length v = 0 then Inl ValueError else Inr v)"

definition User_init :: "string \<Rightarrow> string \<Rightarrow> error + User" where
  "User_init u p =
     (case (min_length u, min_length p) of
        (Inr u', Inr p') \<Rightarrow> Inr \<lparr>username = u', password = p'\<rparr>
      | _ \<Rightarrow> Inl ValidationError)"

subsection \<open>RateLimiter\<close>

definition RATE_LIMIT_COUNT :: int where
  "RATE_LIMIT_COUNT = 1"

definition RATE_LIMIT_WINDOW :: int where
  "RATE_LIMIT_WINDOW = 60"

record Attempt =
  count :: int
  last_time :: datetime

type_synonym RateLimiter = "string \<rightharpoonup> Attempt"

definition RateLimiter_init :: RateLimiter where
  "RateLimiter_init = Map.empty"

text \<open>\<open>now\<close> is the value \<open>datetime.datetime.now()\<close> returns inside the call.\<close>

definition increment :: "datetime \<Rightarrow> string \<Rightarrow> RateLimiter \<Rightarrow> RateLimiter" where
  "increment now user attempts =
     (case attempts user of
        None \<Rightarrow> attempts(user \<mapsto> \<lparr>count = 1, last_time = now\<rparr>)
      | Some a \<Rightarrow>
          (let dt = now - last_time a;
               t_threshold = timedelta_seconds RATE_LIMIT_WINDOW
           in attempts(user \<mapsto>
                (if dt > t_threshold then a\<lparr>count := 1, last_time := now\<rparr>
                 else a\<lparr>count := count a + 1\<rparr>))))"

definition check_limit_exceeded ::
  "datetime \<Rightarrow> string \<Rightarrow> RateLimiter \<Rightarrow> (error + bool) \<times> RateLimiter" where
  "check_limit_exceeded now user attempts =
     (let attempts' = increment now user attempts
      in case attempts' user of
           None \<Rightarrow> (Inl KeyError, attempts')
         | Some a \<Rightarrow> (Inr (count a > RATE_LIMIT_COUNT), attempts'))"

subsection \<open>check\_is\_legit\_user\<close>

text \<open>
  The module keeps one \<open>rate_limiter\<close> for the process. The connections the
  function opens are recorded in the order it opens them.
\<close>

datatype db_call = ProbeSqlite | ProbePostgresql | QuerySqlite string | QueryPostgresql string

record process =
  rate_limiter :: RateLimiter
  db_calls :: "db_call list"

definition call :: "db_call \<Rightarrow> process \<Rightarrow> process" where
  "call c p = p\<lparr>db_calls := db_calls p @ [c]\<rparr>"

text \<open>
  The last lines of \<open>check_is_legit_user\<close>, from the test for an empty hash on, which
  both backend branches run into.
\<close>

definition verify_password :: "environment \<Rightarrow> User \<Rightarrow> error + db_value \<Rightarrow> error + bool" where
  "verify_password env user retrieved =
     (case retrieved of
        Inl e \<Rightarrow> Inl e
      | Inr retrieved_hashed_password \<Rightarrow>
          (if retrieved_hashed_password = DbBytes [] \<or> retrieved_hashed_password = DbNull
           then Inr False
           else bcrypt_checkpw env (encode (password user)) retrieved_hashed_password))"

definition check_is_legit_user ::
  "environment \<Rightarrow> datetime \<Rightarrow> User \<Rightarrow> process \<Rightarrow> (error + bool) \<times> process" where
  "check_is_legit_user env now user p =
     (let (exceeded, attempts') = check_limit_exceeded now (username user) (rate_limiter p);
          p1 = p\<lparr>rate_limiter := attempts'\<rparr>
      in case exceeded of
           Inl e \<Rightarrow> (Inl e, p1)
         | Inr True \<Rightarrow> (Inr False, p1)
         | Inr False \<Rightarrow>
             (let p2 = call ProbeSqlite p1
              in if check_sqlite_db_present env
                 then (verify_password env user
                         (get_user_password_in_sqlite_db env (username user)),
                       call (QuerySqlite (username user)) p2)
                 else
                   (let p3 = (if get_railway_postgresql_connection_string env = None then p2
                              else call ProbePostgresql p2)
                    in if check_postgresql_db_present env
                       then (verify_password env user
                               (get_user_password_in_postgresql_db env (username user)),
                             call (QueryPostgresql (username user)) p3)
                       else (Inr False, p3))))"


section \<open>pathlib and the file system\<close>

text \<open>
  A \<open>Path\<close> is the list of its parts, an absolute one starting with the root part.
  Paths are taken as written: the working directory, \<open>..\<close> and links are not
  resolved. A file holds raw bytes or a data frame in one of the two encodings polars
  writes.
\<close>

type_synonym Path = "string list"

fun split_slash :: "string \<Rightarrow> string \<Rightarrow> string list" where
  "split_slash cur [] = [cur]"
| "split_slash cur (c # cs) =
     (if c = CHR ''/'' then cur # split_slash [] cs else split_slash (cur @ [c]) cs)"

definition Path_of :: "string \<Rightarrow> Path" where
  "Path_of s =
     (let comps = filter (\<lambda>c. c \<noteq> [] \<and> c \<noteq> ''.'') (split_slash [] s)
      in if take 1 s = ''/''
         then (if take 2 s = ''//'' \<and> take 3 s \<noteq> ''///'' then ''//'' else ''/'') # comps
         else comps)"

definition is_root :: "string \<Rightarrow> bool" where
  "is_root part = (part = ''/'' \<or> part = ''//'')"

definition is_absolute :: "Path \<Rightarrow> bool" where
  "is_absolute p = (case p of [] \<Rightarrow> False | part # _ \<Rightarrow> is_root part)"

definition truediv :: "Path \<Rightarrow> string \<Rightarrow> Path" where
  "truediv p s = (let q = Path_of s in if is_absolute q then q else p @ q)"

definition parent :: "Path \<Rightarrow> Path" where
  "parent p =
     (case p of
        [] \<Rightarrow> []
      | [part] \<Rightarrow> if is_root part then [part] else []
      | _ \<Rightarrow> butlast p)"

definition name :: "Path \<Rightarrow> string" where
  "name p =
     (case rev p of
        [] \<Rightarrow> []
      | part # rest \<Rightarrow> if rest = [] \<and> is_root part then [] else part)"

subsection \<open>library/schemas.py: the receipt and its data frames\<close>

datatype CategoryEnum =
    fruits | vegetables | canned_good | dairy | meat | seafood | deli | spices | snacks
  | baked_good | beverages | pasta_rice_cereal | frozen_food | personal_care | health_care
  | household | baby | pet

fun CategoryEnum_value :: "CategoryEnum \<Rightarrow> string" where
  "CategoryEnum_value fruits = ''Fruits''"
| "CategoryEnum_value vegetables = ''Vegetables''"
| "CategoryEnum_value canned_good = ''Canned goods''"
| "CategoryEnum_value dairy = ''Dairy''"
| "CategoryEnum_value meat = ''Meat''"
| "CategoryEnum_value seafood = ''Fish and seafood''"
| "CategoryEnum_value deli = ''Deli''"
| "CategoryEnum_value spices = ''Spices''"
| "CategoryEnum_value snacks = ''Snacks''"
| "CategoryEnum_value baked_good = ''Bread and baked goods''"
| "CategoryEnum_value beverages = ''Beverages''"
| "CategoryEnum_value pasta_rice_cereal = ''Pasta, rice and cereal''"
| "CategoryEnum_value frozen_food = ''Frozen food''"
| "CategoryEnum_value personal_care = ''Personal care''"
| "CategoryEnum_value health_care = ''Health care''"
| "CategoryEnum_value household = ''Household supplies''"
| "CategoryEnum_value baby = ''Baby care items''"
| "CategoryEnum_value pet = ''Pet care items''"

definition CategoryEnum_members :: "CategoryEnum list" where
  "CategoryEnum_members =
     [fruits, vegetables, canned_good, dairy, meat, seafood, deli, spices, snacks, baked_good,
      beverages, pasta_rice_cereal, frozen_food, personal_care, health_care, household, baby, pet]"

definition CategoryEnum_of :: "string \<Rightarrow> CategoryEnum option" where
  "CategoryEnum_of s = find (\<lambda>c. CategoryEnum_value c = s) CategoryEnum_members"

text \<open>A \<open>float\<close> is carried through unchanged by everything below; it is a \<open>real\<close> here.\<close>

record Shop =
  shop_name :: string
  date_str :: string
  time_str :: string
  shop_total :: real

record Item =
  item_name :: string
  price :: real
  item_count :: "int option"
  mass :: "real option"
  tax :: "string option"
  category :: "CategoryEnum option"

record Receipt =
  shop :: Shop
  items :: "Item list"

text \<open>
  A row of a frame with \<open>POLARS_SHOP_SCHEMA\<close>, and one with \<open>POLARS_ITEM_SCHEMA\<close>;
  every polars column is nullable. A date is a number of days and a time a number of
  microseconds in the day.
\<close>

record shop_row =
  col_name :: "string option"
  col_date :: "int option"
  col_time :: "int option"
  col_total :: "real option"
  col_date_str :: "string option"
  col_time_str :: "string option"

record item_row =
  icol_name :: "string option"
  icol_price :: "real option"
  icol_count :: "int option"
  icol_mass :: "real option"
  icol_tax :: "string option"
  icol_category :: "string option"

datatype DataFrame = ShopFrame "shop_row list" | ItemsFrame "item_row list"

datatype file_content = Binary bytes | JsonFile DataFrame | ParquetFile DataFrame

text \<open>
  Next to the directories and the files, the record keeps what the functions that write
  to disk hand to the logger at level \<open>WARNING\<close> or above when they go on to return;
  a record logged just before a \<open>raise\<close> is represented by the error.
\<close>

datatype level = WARNING | ERROR

record filesystem =
  directories :: "Path set"
  files :: "Path \<rightharpoonup> file_content"
  logged :: "(level \<times> string) list"

definition logger :: "level \<Rightarrow> string \<Rightarrow> filesystem \<Rightarrow> filesystem" where
  "logger lvl msg fs = fs\<lparr>logged := logged fs @ [(lvl, msg)]\<rparr>"

definition path_exists :: "filesystem \<Rightarrow> Path \<Rightarrow> bool" where
  "path_exists fs p = (p \<in> directories fs \<or> files fs p \<noteq> None)"

definition mkdir_path :: "filesystem \<Rightarrow> Path \<Rightarrow> error option \<times> filesystem" where
  "mkdir_path fs p =
     (if path_exists fs p then (Some FileExistsError, fs)
      else if parent p \<notin> directories fs
           then (Some (if files fs (parent p) \<noteq> None then NotADirectoryError
                       else FileNotFoundError), fs)
      else (None, fs\<lparr>directories := insert p (directories fs)\<rparr>))"

definition write_file :: "filesystem \<Rightarrow> Path \<Rightarrow> file_content \<Rightarrow> error option \<times> filesystem" where
  "write_file fs p content =
     (if p \<in> directories fs then (Some IsADirectoryError, fs)
      else if parent p \<notin> directories fs
           then (Some (if files fs (parent p) \<noteq> None then NotADirectoryError
                       else FileNotFoundError), fs)
      else (None, fs\<lparr>files := (files fs)(p \<mapsto> content)\<rparr>))"

text \<open>Sequencing of calls that may raise: the first error stops the rest.\<close>

definition and_then ::
  "error option \<times> 's \<Rightarrow> ('s \<Rightarrow> error option \<times> 's) \<Rightarrow> error option \<times> 's" where
  "and_then r f = (case r of (Some e, s) \<Rightarrow> (Some e, s) | (None, s) \<Rightarrow> f s)"

definition bind_result :: "error + 'a \<Rightarrow> ('a \<Rightarrow> error + 'b) \<Rightarrow> error + 'b" where
  "bind_result r f = (case r of Inl e \<Rightarrow> Inl e | Inr x \<Rightarrow> f x)"


subsection \<open>The libraries the code calls\<close>

text \<open>
  Pillow, hashlib, base64, \<open>datetime.strptime\<close>, the polars encoders and the attributes
  a pydantic model instance has besides its fields are not part of the repository; they
  are parameters. \<open>'img\<close> is \<open>PIL.Image.Image\<close>. \<open>Image_save\<close> gives the bytes
  \<open>image.save(path)\<close> writes for a path ending in \<open>.jpg\<close>.
\<close>

datatype pyobj = PyStr string | PyObject

record 'img library =
  Image_open :: "bytes \<Rightarrow> error + 'img"
  Image_save :: "'img \<Rightarrow> error + bytes"
  Image_rotate :: "'img \<Rightarrow> int \<Rightarrow> 'img"
  sha256_hexdigest :: "bytes \<Rightarrow> string"
  b64encode :: "bytes \<Rightarrow> string"
  strptime :: "string \<Rightarrow> string \<Rightarrow> datetime option"
  frame_encoding :: "DataFrame \<Rightarrow> bytes"
  BaseModel_attributes :: "string \<rightharpoonup> pyobj"

definition file_bytes :: "'img library \<Rightarrow> file_content \<Rightarrow> bytes" where
  "file_bytes lib content =
     (case content of
        Binary b \<Rightarrow> b
      | JsonFile df \<Rightarrow> frame_encoding lib df
      | ParquetFile df \<Rightarrow> frame_encoding lib df)"

subsection \<open>library/schemas.py: conversions\<close>

definition microseconds_per_day :: int where
  "microseconds_per_day = 86400000000"

definition Shop_date :: "'img library \<Rightarrow> Shop \<Rightarrow> int option" where
  "Shop_date lib s =
     (case strptime lib (date_str s) ''%Y-%m-%d'' of
        Some d \<Rightarrow> Some (d div microseconds_per_day)
      | None \<Rightarrow>
          (case strptime lib (date_str s) ''%d.%m.%Y'' of
             Some d \<Rightarrow> Some (d div microseconds_per_day)
           | None \<Rightarrow> None))"

definition Shop_time :: "'img library \<Rightarrow> Shop \<Rightarrow> int option" where
  "Shop_time lib s =
     (case strptime lib (time_str s) ''%H:%M'' of
        Some t \<Rightarrow> Some (t mod microseconds_per_day)
      | None \<Rightarrow>
          (case strptime lib (time_str s) ''%H:%M:%S'' of
             Some t \<Rightarrow> Some (t mod microseconds_per_day)
           | None \<Rightarrow> None))"

definition convert_to_dataframe_shop :: "'img library \<Rightarrow> Receipt \<Rightarrow> shop_row list" where
  "convert_to_dataframe_shop lib receipt =
     [\<lparr>col_name = Some (shop_name (shop receipt)),
       col_date = Shop_date lib (shop receipt),
       col_time = Shop_time lib (shop receipt),
       col_total = Some (shop_total (shop receipt)),
       col_date_str = Some (date_str (shop receipt)),
       col_time_str = Some (time_str (shop receipt))\<rparr>]"

definition fits_Int64 :: "int \<Rightarrow> bool" where
  "fits_Int64 i = (- (2 ^ 63) \<le> i \<and> i < 2 ^ 63)"

definition Item_model_dump :: "Item \<Rightarrow> item_row" where
  "Item_model_dump item =
     \<lparr>icol_name = Some (item_name item),
      icol_price = Some (price item),
      icol_count = item_count item,
      icol_mass = mass item,
      icol_tax = tax item,
      icol_category = map_option CategoryEnum_value (category item)\<rparr>"

text \<open>A count that does not fit the \<open>Int64\<close> column makes \<open>pl.from_dicts\<close> raise.\<close>

definition convert_to_dataframe_items :: "Receipt \<Rightarrow> error + item_row list" where
  "convert_to_dataframe_items receipt =
     (if \<forall>item \<in> set (items receipt). case item_count item of None \<Rightarrow> True | Some c \<Rightarrow> fits_Int64 c
      then Inr (map Item_model_dump (items receipt))
      else Inl ComputeError)"

definition Shop_init :: "shop_row \<Rightarrow> error + Shop" where
  "Shop_init d =
     (case (col_name d, col_date_str d, col_time_str d, col_total d) of
        (Some n, Some ds, Some ts, Some t) \<Rightarrow>
          Inr \<lparr>shop_name = n, date_str = ds, time_str = ts, shop_total = t\<rparr>
      | _ \<Rightarrow> Inl ValidationError)"

definition Item_init :: "item_row \<Rightarrow> error + Item" where
  "Item_init d =
     (case (icol_name d, icol_price d) of
        (Some n, Some p) \<Rightarrow>
          (case icol_category d of
             None \<Rightarrow>
               Inr \<lparr>item_name = n, price = p, item_count = icol_count d, mass = icol_mass d,
                    tax = icol_tax d, category = None\<rparr>
           | Some s \<Rightarrow>
               (case CategoryEnum_of s of
                  None \<Rightarrow> Inl ValidationError
                | Some c \<Rightarrow>
                    Inr \<lparr>item_name = n, price = p, item_count = icol_count d, mass = icol_mass d,
                         tax = icol_tax d, category = Some c\<rparr>))
      | _ \<Rightarrow> Inl ValidationError)"

fun Item_init_all :: "item_row list \<Rightarrow> error + Item list" where
  "Item_init_all [] = Inr []"
| "Item_init_all (d # ds) =
     bind_result (Item_init d) (\<lambda>item. bind_result (Item_init_all ds) (\<lambda>rest. Inr (item # rest)))"

text \<open>
  \<open>shop.to_dicts()[0]\<close> needs a row; a frame of the other schema lacks the required
  fields of the model it is validated against.
\<close>

definition polars_info_dataframes_to_pydantic :: "DataFrame \<Rightarrow> DataFrame \<Rightarrow> error + Receipt" where
  "polars_info_dataframes_to_pydantic shop_df items_df =
     (case shop_df of
        ShopFrame [] \<Rightarrow> Inl IndexError
      | ItemsFrame [] \<Rightarrow> Inl IndexError
      | ItemsFrame (d # _) \<Rightarrow> Inl ValidationError
      | ShopFrame (shop_dict # _) \<Rightarrow>
          bind_result (Shop_init shop_dict) (\<lambda>s.
            (case items_df of
               ItemsFrame items_dict \<Rightarrow>
                 bind_result (Item_init_all items_dict) (\<lambda>is. Inr \<lparr>shop = s, items = is\<rparr>)
             | ShopFrame [] \<Rightarrow> Inr \<lparr>shop = s, items = []\<rparr>
             | ShopFrame (d # _) \<Rightarrow> Inl ValidationError)))"

section \<open>library/settings.py\<close>

record StoredFileNames =
  original_image_name :: string
  rotated_image_name :: string
  cropped_image_name :: string
  edited_image_name :: string
  shop_info_json_name :: string
  shop_info_parquet_name :: string
  items_info_json_name :: string
  items_info_parquet_name :: string

definition StoredFileNames_init :: StoredFileNames where
  "StoredFileNames_init =
     \<lparr>original_image_name = ''original-image.jpg'',
      rotated_image_name = ''rotated-image.jpg'',
      cropped_image_name = ''cropped-image.jpg'',
      edited_image_name = ''edited-image.jpg'',
      shop_info_json_name = ''shop-info.json'',
      shop_info_parquet_name = ''shop-info.parquet'',
      items_info_json_name = ''items-info.json'',
      items_info_parquet_name = ''items-info.parquet''\<rparr>"

text \<open>
  \<open>getattr(file_names, name)\<close>: a field of the model if \<open>name\<close> is one, otherwise
  whatever the instance has under that name from \<open>BaseModel\<close> and \<open>object\<close>;
  \<open>hasattr\<close> is whether there is anything.
\<close>

definition StoredFileNames_getattr ::
  "(string \<rightharpoonup> pyobj) \<Rightarrow> StoredFileNames \<Rightarrow> string \<Rightarrow> pyobj option" where
  "StoredFileNames_getattr attributes file_names nm =
     (if nm = ''original_image'' then Some (PyStr (original_image_name file_names))
      else if nm = ''rotated_image'' then Some (PyStr (rotated_image_name file_names))
      else if nm = ''cropped_image'' then Some (PyStr (cropped_image_name file_names))
      else if nm = ''edited_image'' then Some (PyStr (edited_image_name file_names))
      else if nm = ''shop_info_json'' then Some (PyStr (shop_info_json_name file_names))
      else if nm = ''shop_info_parquet'' then Some (PyStr (shop_info_parquet_name file_names))
      else if nm = ''items_info_json'' then Some (PyStr (items_info_json_name file_names))
      else if nm = ''items_info_parquet'' then Some (PyStr (items_info_parquet_name file_names))
      else attributes nm)"

record Data =
  root_dir :: Path
  extraction_subdir :: string
  collation_subdir :: string
  use_user :: bool
  data_username :: "string option"

definition root_dir_of :: "Data \<Rightarrow> Path" where
  "root_dir_of d =
     (case data_username d of
        Some u \<Rightarrow> if u \<noteq> [] \<and> use_user d then truediv (root_dir d) u else root_dir d
      | None \<Rightarrow> root_dir d)"

definition get_extraction_dir :: "Data \<Rightarrow> Path" where
  "get_extraction_dir d = truediv (root_dir_of d) (extraction_subdir d)"

definition get_collation_dir :: "Data \<Rightarrow> Path" where
  "get_collation_dir d = truediv (root_dir_of d) (collation_subdir d)"

record Settings =
  data :: Data

definition get_extraction_artifacts_dir :: "Settings \<Rightarrow> Path" where
  "get_extraction_artifacts_dir settings = get_extraction_dir (data settings)"


section \<open>library/utils.py\<close>

definition read_image_as_bytes :: "'img library \<Rightarrow> filesystem \<Rightarrow> Path \<Rightarrow> error + bytes" where
  "read_image_as_bytes lib fs image_path =
     (case files fs image_path of
        Some content \<Rightarrow> Inr (file_bytes lib content)
      | None \<Rightarrow> Inl FileNotFoundError)"

definition base64_encode_image_bytes :: "'img library \<Rightarrow> bytes \<Rightarrow> error + string" where
  "base64_encode_image_bytes lib image_bytes = Inr (b64encode lib image_bytes)"

definition read_and_b64_encode_image :: "'img library \<Rightarrow> filesystem \<Rightarrow> Path \<Rightarrow> error + string" where
  "read_and_b64_encode_image lib fs image_path =
     bind_result (read_image_as_bytes lib fs image_path) (base64_encode_image_bytes lib)"

definition get_image_hash :: "'img library \<Rightarrow> bytes \<Rightarrow> string" where
  "get_image_hash lib image_bytes = sha256_hexdigest lib image_bytes"

definition get_image_dir_name :: "Settings \<Rightarrow> string \<Rightarrow> string \<Rightarrow> Path" where
  "get_image_dir_name settings image_hash original_file_name =
     truediv (get_extraction_artifacts_dir settings) (original_file_name @ ''-'' @ image_hash)"

text \<open>
  The \<open>image\<close> argument: bytes, a Pillow image, or a value that is neither.
  \<open>image.save(path)\<close> opens the file for writing before it encodes, so an encoder that
  fails leaves a file that was there empty and no file where there was none.
\<close>

datatype 'img image_arg = ImageBytes bytes | ImagePIL 'img | ImageOther

definition save_image_as_jpg_file ::
  "'img library \<Rightarrow> Path \<Rightarrow> 'img image_arg \<Rightarrow> bool \<Rightarrow> bool \<Rightarrow> filesystem
     \<Rightarrow> error option \<times> filesystem" where
  "save_image_as_jpg_file lib image_path image_obj overwrite mkdir fs =
     (let image_dir = parent image_path
      in if \<not> path_exists fs image_dir \<and> \<not> mkdir then (Some FileNotFoundError, fs)
         else
           and_then
             (if \<not> path_exists fs image_dir \<and> mkdir then mkdir_path fs image_dir else (None, fs))
             (\<lambda>fs1.
                if path_exists fs1 image_path \<and> \<not> overwrite
                then (None, logger WARNING ''File already exists, skipping creation.'' fs1)
                else
                  (case image_obj of
                     ImageBytes b \<Rightarrow> write_file fs1 image_path (Binary b)
                   | ImagePIL img \<Rightarrow>
                       (case write_file fs1 image_path (Binary []) of
                          (Some e, fs2) \<Rightarrow> (Some e, fs1)
                        | (None, opened) \<Rightarrow>
                            (case Image_save lib img of
                               Inl e \<Rightarrow>
                                 (Some e, if files fs1 image_path = None then fs1 else opened)
                             | Inr b \<Rightarrow> write_file opened image_path (Binary b)))
                   | ImageOther \<Rightarrow> (Some TypeError, fs1))))"

section \<open>library/handler.py\<close>

record 'img ImageHandler =
  target_directory :: Path
  original_image :: 'img
  original_image_bytes :: bytes
  original_file_name :: string
  target_file_names :: StoredFileNames
  extracted_receipt_info :: "Receipt option"
  cropped :: bool
  rotated :: bool
  angle :: real
  edited_image :: "'img option"

definition ImageHandler_init :: "Path \<Rightarrow> 'img \<Rightarrow> bytes \<Rightarrow> string \<Rightarrow> 'img ImageHandler" where
  "ImageHandler_init dir image_obj image_bytes file_name =
     \<lparr>target_directory = dir,
      original_image = image_obj,
      original_image_bytes = image_bytes,
      original_file_name = file_name,
      target_file_names = StoredFileNames_init,
      extracted_receipt_info = None,
      cropped = False,
      rotated = False,
      angle = 0,
      edited_image = None\<rparr>"

definition get_target_file_path ::
  "'img library \<Rightarrow> 'img ImageHandler \<Rightarrow> string \<Rightarrow> error + Path" where
  "get_target_file_path lib self nm =
     (case StoredFileNames_getattr (BaseModel_attributes lib) (target_file_names self) nm of
        None \<Rightarrow> Inl ValueError
      | Some (PyStr file_name) \<Rightarrow> Inr (truediv (target_directory self) file_name)
      | Some PyObject \<Rightarrow> Inl TypeError)"

definition save_image ::
  "'img library \<Rightarrow> 'img option \<Rightarrow> string \<Rightarrow> Path \<Rightarrow> bool \<Rightarrow> bool \<Rightarrow> filesystem
     \<Rightarrow> error option \<times> filesystem" where
  "save_image lib image_obj nm image_path overwrite mkdir fs =
     (case image_obj of
        Some img \<Rightarrow> save_image_as_jpg_file lib image_path (ImagePIL img) overwrite mkdir fs
      | None \<Rightarrow> (None, fs))"

definition save_dataframe ::
  "DataFrame \<Rightarrow> string \<Rightarrow> Path \<Rightarrow> Path \<Rightarrow> bool \<Rightarrow> filesystem \<Rightarrow> error option \<times> filesystem" where
  "save_dataframe df nm json_path parquet_path overwrite fs =
     and_then
       (if \<not> path_exists fs json_path \<or> overwrite then write_file fs json_path (JsonFile df)
        else (None, fs))
       (\<lambda>fs1.
          if \<not> path_exists fs1 parquet_path \<or> overwrite
          then write_file fs1 parquet_path (ParquetFile df)
          else (None, fs1))"

definition save_original_image ::
  "'img library \<Rightarrow> 'img ImageHandler \<Rightarrow> bool \<Rightarrow> bool \<Rightarrow> filesystem \<Rightarrow> error option \<times> filesystem" where
  "save_original_image lib self mkdir overwrite fs =
     (case get_target_file_path lib self ''original_image'' of
        Inl e \<Rightarrow> (Some e, fs)
      | Inr image_path \<Rightarrow>
          save_image lib (Some (original_image self)) ''original_image'' image_path overwrite mkdir fs)"

definition save_edited_image ::
  "'img library \<Rightarrow> 'img ImageHandler \<Rightarrow> bool \<Rightarrow> bool \<Rightarrow> filesystem \<Rightarrow> error option \<times> filesystem" where
  "save_edited_image lib self mkdir overwrite fs =
     (case get_target_file_path lib self ''edited_image'' of
        Inl e \<Rightarrow> (Some e, fs)
      | Inr image_path \<Rightarrow>
          (case edited_image self of
             None \<Rightarrow> (None, logger ERROR ''Could not save edited_image'' fs)
           | Some img \<Rightarrow> save_image lib (Some img) ''edited_image'' image_path overwrite mkdir fs))"

definition save_images ::
  "'img library \<Rightarrow> 'img ImageHandler \<Rightarrow> bool \<Rightarrow> bool \<Rightarrow> filesystem \<Rightarrow> error option \<times> filesystem" where
  "save_images lib self mkdir overwrite fs =
     and_then (save_original_image lib self mkdir overwrite fs)
       (save_edited_image lib self mkdir overwrite)"

definition save_shop_info ::
  "'img library \<Rightarrow> 'img ImageHandler \<Rightarrow> bool \<Rightarrow> filesystem \<Rightarrow> error option \<times> filesystem" where
  "save_shop_info lib self overwrite fs =
     (case extracted_receipt_info self of
        None \<Rightarrow> (None, logger ERROR ''Could not save shop_info'' fs)
      | Some receipt \<Rightarrow>
          (let shop_df = map (\<lambda>row. row\<lparr>col_time := None\<rparr>) (convert_to_dataframe_shop lib receipt)
           in case get_target_file_path lib self ''shop_info_json'' of
                Inl e \<Rightarrow> (Some e, fs)
              | Inr json_path \<Rightarrow>
                  (case get_target_file_path lib self ''shop_info_parquet'' of
                     Inl e \<Rightarrow> (Some e, fs)
                   | Inr parquet_path \<Rightarrow>
                       save_dataframe (ShopFrame shop_df) ''shop'' json_path parquet_path
                         overwrite fs)))"

definition save_items_info ::
  "'img library \<Rightarrow> 'img ImageHandler \<Rightarrow> bool \<Rightarrow> filesystem \<Rightarrow> error option \<times> filesystem" where
  "save_items_info lib self overwrite fs =
     (case extracted_receipt_info self of
        None \<Rightarrow> (None, logger ERROR ''Could not save items_info'' fs)
      | Some receipt \<Rightarrow>
          (case convert_to_dataframe_items receipt of
             Inl e \<Rightarrow> (Some e, fs)
           | Inr items_df \<Rightarrow>
               (case get_target_file_path lib self ''items_info_json'' of
                  Inl e \<Rightarrow> (Some e, fs)
                | Inr json_path \<Rightarrow>
                    (case get_target_file_path lib self ''items_info_parquet'' of
                       Inl e \<Rightarrow> (Some e, fs)
                     | Inr parquet_path \<Rightarrow>
                         save_dataframe (ItemsFrame items_df) ''items'' json_path parquet_path
                           overwrite fs))))"

definition save_receipt_info ::
  "'img library \<Rightarrow> 'img ImageHandler \<Rightarrow> bool \<Rightarrow> filesystem \<Rightarrow> error option \<times> filesystem" where
  "save_receipt_info lib self overwrite fs =
     and_then (save_shop_info lib self overwrite fs) (save_items_info lib self overwrite)"

definition save ::
  "'img library \<Rightarrow> 'img ImageHandler \<Rightarrow> bool \<Rightarrow> bool \<Rightarrow> filesystem \<Rightarrow> error option \<times> filesystem" where
  "save lib self mkdir overwrite fs =
     and_then (save_images lib self mkdir overwrite fs)
       (\<lambda>fs1. if extracted_receipt_info self \<noteq> None then save_receipt_info lib self overwrite fs1
               else (None, fs1))"

definition Image_open_path :: "'img library \<Rightarrow> filesystem \<Rightarrow> Path \<Rightarrow> error + 'img" where
  "Image_open_path lib fs p =
     (case files fs p of
        None \<Rightarrow> Inl (if p \<in> directories fs then IsADirectoryError else FileNotFoundError)
      | Some content \<Rightarrow> Image_open lib (file_bytes lib content))"

definition read_bytes :: "'img library \<Rightarrow> filesystem \<Rightarrow> Path \<Rightarrow> error + bytes" where
  "read_bytes lib fs p =
     (case files fs p of
        None \<Rightarrow> Inl (if p \<in> directories fs then IsADirectoryError else FileNotFoundError)
      | Some content \<Rightarrow> Inr (file_bytes lib content))"

definition read_parquet :: "filesystem \<Rightarrow> Path \<Rightarrow> error + DataFrame" where
  "read_parquet fs p =
     (case files fs p of
        Some (ParquetFile df) \<Rightarrow> Inr df
      | _ \<Rightarrow> Inl LibraryError)"

definition from_target_directory ::
  "'img library \<Rightarrow> filesystem \<Rightarrow> Path \<Rightarrow> error + 'img ImageHandler" where
  "from_target_directory lib fs dir =
     (let file_names = StoredFileNames_init;
          image_path = truediv dir (original_image_name file_names)
      in bind_result (Image_open_path lib fs image_path) (\<lambda>image_obj.
         bind_result (read_bytes lib fs image_path) (\<lambda>image_bytes.
         let handler = (ImageHandler_init dir image_obj image_bytes (name image_path))
                         \<lparr>target_file_names := file_names\<rparr>
         in bind_result (get_target_file_path lib handler ''edited_image'') (\<lambda>edited_image_path.
            bind_result
              (if path_exists fs edited_image_path
               then bind_result (Image_open_path lib fs edited_image_path)
                      (\<lambda>edited. Inr (handler\<lparr>edited_image := Some edited\<rparr>))
               else Inr handler) (\<lambda>handler.
            bind_result (get_target_file_path lib handler ''shop_info_parquet'') (\<lambda>shop_path.
            bind_result
              (if path_exists fs shop_path then map_sum id Some (read_parquet fs shop_path)
               else Inr None) (\<lambda>shop_df.
            bind_result (get_target_file_path lib handler ''items_info_parquet'') (\<lambda>items_path.
            bind_result
              (if path_exists fs items_path then map_sum id Some (read_parquet fs items_path)
               else Inr None) (\<lambda>items_df.
            (case (shop_df, items_df) of
               (Some sdf, Some idf) \<Rightarrow>
                 bind_result (polars_info_dataframes_to_pydantic sdf idf)
                   (\<lambda>receipt. Inr (handler\<lparr>extracted_receipt_info := Some receipt\<rparr>))
             | _ \<Rightarrow> Inr handler))))))))))"

text \<open>An uploaded file: its name and its content.\<close>

record UploadedFile =
  upload_name :: string
  upload_value :: bytes

definition from_streamlit_uploaded_file ::
  "'img library \<Rightarrow> filesystem \<Rightarrow> UploadedFile \<Rightarrow> Settings \<Rightarrow> error + 'img ImageHandler" where
  "from_streamlit_uploaded_file lib fs uploaded_file settings =
     (let image_bytes = upload_value uploaded_file;
          image_hash = get_image_hash lib image_bytes;
          original_file_name = upload_name uploaded_file;
          dir = get_image_dir_name settings image_hash original_file_name
      in if path_exists fs dir then from_target_directory lib fs dir
         else bind_result (Image_open lib image_bytes)
                (\<lambda>image_obj. Inr (ImageHandler_init dir image_obj image_bytes original_file_name)))"


section \<open>library/state.py\<close>

datatype States = LOGIN | UPLOAD | ROTATE | CROP | EXTRACT | WRANGLE | SAVE | DONE

record 'img AppState =
  state :: States
  is_logged_in :: bool
  image_handler :: "'img ImageHandler option"
  state_username :: "string option"

definition AppState_init :: "'img AppState" where
  "AppState_init = \<lparr>state = LOGIN, is_logged_in = False, image_handler = None, state_username = None\<rparr>"

text \<open>
  What one session of the application works on: the two entries of
  \<open>st.session_state\<close>, the process with its rate limiter, the disk, and what has been
  put on the page.
\<close>

datatype ui = Markdown string | Error string | Info string | Success string | Rerun

record 'img world =
  app_state_var :: "'img AppState option"
  settings_var :: "Settings option"
  process_of :: process
  disk :: filesystem
  shown :: "ui list"

definition display :: "ui \<Rightarrow> 'img world \<Rightarrow> 'img world" where
  "display u w = w\<lparr>shown := shown w @ [u]\<rparr>"

definition set_app_state :: "'img AppState \<Rightarrow> 'img world \<Rightarrow> 'img world" where
  "set_app_state app_state w = w\<lparr>app_state_var := Some app_state\<rparr>"

definition get_app_state :: "'img world \<Rightarrow> 'img AppState \<times> 'img world" where
  "get_app_state w =
     (case app_state_var w of
        Some app_state \<Rightarrow> (app_state, w)
      | None \<Rightarrow> (AppState_init, set_app_state AppState_init w))"

text \<open>
  Building \<open>Settings\<close> reads the configuration file and the environment and checks
  directories; it and \<open>fine_logging.setup_logging\<close> are parameters.
\<close>

record application =
  Settings_init :: "string \<Rightarrow> error + Settings"
  setup_logging :: "Settings \<Rightarrow> error option"

definition init_settings :: "application \<Rightarrow> string \<Rightarrow> 'img world \<Rightarrow> error option \<times> 'img world" where
  "init_settings app user w =
     (if settings_var w = None
      then (case Settings_init app user of
              Inl e \<Rightarrow> (Some e, w)
            | Inr settings \<Rightarrow> (setup_logging app settings, w\<lparr>settings_var := Some settings\<rparr>))
      else (None, w))"

definition get_settings :: "'img world \<Rightarrow> error + Settings" where
  "get_settings w = (case settings_var w of Some settings \<Rightarrow> Inr settings | None \<Rightarrow> Inl KeyError)"

definition check_is_logged_in :: "'img world \<Rightarrow> bool \<times> 'img world" where
  "check_is_logged_in w = (let (app_state, w1) = get_app_state w in (is_logged_in app_state, w1))"

definition set_logging_in_state_if_not_logged_in :: "'img world \<Rightarrow> 'img world" where
  "set_logging_in_state_if_not_logged_in w =
     (let (logged_in, w1) = check_is_logged_in w
      in if logged_in then w1
         else (let (app_state, w2) = get_app_state w1
               in set_app_state (app_state\<lparr>state := LOGIN\<rparr>) w2))"

definition identify_image_processing_state :: "'img ImageHandler \<Rightarrow> States" where
  "identify_image_processing_state handler =
     (if extracted_receipt_info handler \<noteq> None then WRANGLE else ROTATE)"

section \<open>app/main.py\<close>

definition do_login ::
  "application \<Rightarrow> environment \<Rightarrow> datetime \<Rightarrow> bool \<Rightarrow> string \<Rightarrow> string \<Rightarrow> 'img world
     \<Rightarrow> error option \<times> 'img world" where
  "do_login app env now submit user_input password_input w =
     (let w0 = display (Markdown ''## Login'') w
      in if \<not> submit then (None, w0)
         else
           (let (user, w1) =
                  (case User_init user_input password_input of
                     Inl e \<Rightarrow> (None, display (Error ''Login failed'') w0)
                   | Inr u \<Rightarrow> (Some u, w0))
            in and_then (init_settings app user_input w1)
                 (\<lambda>w2. case user of
                          None \<Rightarrow> (None, w2)
                        | Some u \<Rightarrow>
                            (let (legit, p) = check_is_legit_user env now u (process_of w2);
                                 w3 = w2\<lparr>process_of := p\<rparr>
                             in case legit of
                                  Inl e \<Rightarrow> (Some e, w3)
                                | Inr True \<Rightarrow>
                                    (let w4 = display (Info ''Successfully logged in'') w3;
                                         (app_state, w5) = get_app_state w4
                                     in (None,
                                         display Rerun
                                           (set_app_state
                                              (app_state\<lparr>is_logged_in := True, state := UPLOAD,
                                                 state_username := Some (username u)\<rparr>) w5)))
                                | Inr False \<Rightarrow> (None, display (Error ''Login failed'') w3)))))"

definition do_logout :: "bool \<Rightarrow> 'img world \<Rightarrow> error option \<times> 'img world" where
  "do_logout button w =
     (let w0 = display (Markdown ''## Logout'') w
      in if button
         then (let w1 = display (Info ''Logging out'') w0;
                   (app_state, w2) = get_app_state w1
               in (None,
                   display Rerun
                     (set_app_state (app_state\<lparr>is_logged_in := False, state := LOGIN\<rparr>) w2)))
         else (None, w0))"


section \<open>app/tools/process\_image.py\<close>

text \<open>
  What the widgets and the extraction service hand to one run of the page: the uploaded
  file, whether Continue was pressed, the rotation entered, the image the cropper
  returns, whether a client could be built, the service's answer to a request, and the
  two frames as they come back from the data editors.
\<close>

record 'img widgets =
  uploaded_file :: "UploadedFile option"
  is_done :: bool
  degrees :: int
  image_cropped :: 'img
  anthropic_client :: "error option"
  anthropic_request :: "string \<Rightarrow> error + Receipt"
  shop_pl :: DataFrame
  items_pl :: DataFrame

definition put_disk :: "'img world \<Rightarrow> error option \<times> filesystem \<Rightarrow> error option \<times> 'img world" where
  "put_disk w r = (case r of (e, fs) \<Rightarrow> (e, w\<lparr>disk := fs\<rparr>))"

definition do_upload_image :: "'img library \<Rightarrow> 'img widgets \<Rightarrow> 'img world \<Rightarrow> error option \<times> 'img world" where
  "do_upload_image lib inp w =
     (let (app_state, w1) = get_app_state (display (Markdown ''## Upload Image'') w)
      in case uploaded_file inp of
           None \<Rightarrow> (None, w1)
         | Some file \<Rightarrow>
             if \<not> is_done inp then (None, w1)
             else
               (case get_settings w1 of
                  Inl e \<Rightarrow> (Some e, w1)
                | Inr settings \<Rightarrow>
                    (case from_streamlit_uploaded_file lib (disk w1) file settings of
                       Inl e \<Rightarrow> (Some e, w1)
                     | Inr receipt_handler \<Rightarrow>
                         and_then (put_disk w1 (save lib receipt_handler True False (disk w1)))
                           (\<lambda>w2. (None,
                                   display Rerun
                                     (set_app_state
                                        (app_state\<lparr>image_handler := Some receipt_handler,
                                           state := identify_image_processing_state receipt_handler\<rparr>)
                                        w2))))))"

text \<open>
  The pages change the \<open>AppState\<close> object that the session holds, so what they assign
  before a call that raises stays assigned.
\<close>

definition do_rotate :: "'img library \<Rightarrow> 'img widgets \<Rightarrow> 'img world \<Rightarrow> error option \<times> 'img world" where
  "do_rotate lib inp w =
     (let (app_state, w1) = get_app_state (display (Markdown ''## Rotate Image'') w)
      in case image_handler app_state of
           None \<Rightarrow> (Some ValueError, w1)
         | Some handler \<Rightarrow>
             (let image_rotated = Image_rotate lib (original_image handler) (360 - degrees inp)
              in if \<not> is_done inp then (None, w1)
                 else
                   (let handler1 = handler\<lparr>angle := of_int (degrees inp), rotated := True,
                                     edited_image := Some image_rotated\<rparr>;
                        w2 = set_app_state
                               (app_state\<lparr>image_handler := Some handler1, state := CROP\<rparr>) w1
                    in and_then (put_disk w2 (save_edited_image lib handler1 False True (disk w2)))
                         (\<lambda>w3. (None, display Rerun w3)))))"

definition do_crop :: "'img library \<Rightarrow> 'img widgets \<Rightarrow> 'img world \<Rightarrow> error option \<times> 'img world" where
  "do_crop lib inp w =
     (let (app_state, w1) = get_app_state (display (Markdown ''## Crop Image'') w)
      in case image_handler app_state of
           None \<Rightarrow> (Some ValueError, w1)
         | Some handler \<Rightarrow>
             (case edited_image handler of
                None \<Rightarrow> (Some AttributeError, w1)
              | Some image_obj \<Rightarrow>
                  if \<not> is_done inp then (None, w1)
                  else
                    (let handler1 = handler\<lparr>cropped := True,
                                      edited_image := Some (image_cropped inp)\<rparr>;
                         w2 = set_app_state
                                (app_state\<lparr>image_handler := Some handler1, state := EXTRACT\<rparr>) w1
                     in and_then (put_disk w2 (save_edited_image lib handler1 False True (disk w2)))
                          (\<lambda>w3. (None, display Rerun w3)))))"

definition edited_image_base64 :: "'img library \<Rightarrow> filesystem \<Rightarrow> 'img ImageHandler \<Rightarrow> error + string" where
  "edited_image_base64 lib fs self =
     bind_result (get_target_file_path lib self ''edited_image'')
       (read_and_b64_encode_image lib fs)"

definition do_extract :: "'img library \<Rightarrow> 'img widgets \<Rightarrow> 'img world \<Rightarrow> error option \<times> 'img world" where
  "do_extract lib inp w =
     (let (app_state, w1) = get_app_state (display (Markdown ''## Extract data'') w)
      in case image_handler app_state of
           None \<Rightarrow> (Some ValueError, w1)
         | Some handler \<Rightarrow>
             (case get_settings w1 of
                Inl e \<Rightarrow> (Some e, w1)
              | Inr settings \<Rightarrow>
                  (case anthropic_client inp of
                     Some e \<Rightarrow> (Some e, w1)
                   | None \<Rightarrow>
                       (case bind_result (edited_image_base64 lib (disk w1) handler)
                               (anthropic_request inp) of
                          Inl e \<Rightarrow> (Some e, w1)
                        | Inr extracted \<Rightarrow>
                            (let w2 = display (Success ''Completed extraction'') w1;
                                 handler1 = handler\<lparr>extracted_receipt_info := Some extracted\<rparr>;
                                 app_state1 = app_state\<lparr>image_handler := Some handler1\<rparr>;
                                 w3 = set_app_state app_state1 w2
                             in and_then (put_disk w3 (save_receipt_info lib handler1 True (disk w3)))
                                  (\<lambda>w4. (None,
                                          display Rerun
                                            (set_app_state (app_state1\<lparr>state := WRANGLE\<rparr>) w4))))))))"

definition do_wrangle :: "'img library \<Rightarrow> 'img widgets \<Rightarrow> 'img world \<Rightarrow> error option \<times> 'img world" where
  "do_wrangle lib inp w =
     (let (app_state, w1) = get_app_state (display (Markdown ''## Wrangling data'') w)
      in case image_handler app_state of
           None \<Rightarrow> (Some ValueError, w1)
         | Some handler \<Rightarrow>
             (case edited_image handler of
                None \<Rightarrow> (Some ValueError, w1)
              | Some image_obj \<Rightarrow>
                  (case extracted_receipt_info handler of
                     None \<Rightarrow> (Some ValueError, w1)
                   | Some receipt \<Rightarrow>
                       (case convert_to_dataframe_items receipt of
                          Inl e \<Rightarrow> (Some e, w1)
                        | Inr items_df \<Rightarrow>
                            if \<not> is_done inp then (None, w1)
                            else
                              (case polars_info_dataframes_to_pydantic (shop_pl inp) (items_pl inp) of
                                 Inl e \<Rightarrow> (Some e, w1)
                               | Inr edited \<Rightarrow>
                                   (let handler1 = handler\<lparr>extracted_receipt_info := Some edited\<rparr>;
                                        app_state1 = app_state\<lparr>image_handler := Some handler1\<rparr>;
                                        w2 = set_app_state app_state1 w1
                                    in and_then
                                         (put_disk w2 (save_receipt_info lib handler1 False (disk w2)))
                                         (\<lambda>w3. (None,
                                                 display Rerun
                                                   (set_app_state (app_state1\<lparr>state := DONE\<rparr>)
                                                      w3)))))))))"

definition do_done :: "'img world \<Rightarrow> error option \<times> 'img world" where
  "do_done w =
     (let (app_state, w1) = get_app_state w
      in (None, display Rerun (set_app_state (app_state\<lparr>state := UPLOAD\<rparr>) w1)))"

definition process_image :: "'img library \<Rightarrow> 'img widgets \<Rightarrow> 'img world \<Rightarrow> error option \<times> 'img world" where
  "process_image lib inp w =
     (let (app_state, w1) = get_app_state w
      in case state app_state of
           UPLOAD \<Rightarrow> do_upload_image lib inp w1
         | ROTATE \<Rightarrow> do_rotate lib inp w1
         | CROP \<Rightarrow> do_crop lib inp w1
         | EXTRACT \<Rightarrow> do_extract lib inp w1
         | WRANGLE \<Rightarrow> do_wrangle lib inp w1
         | DONE \<Rightarrow> do_done w1
         | _ \<Rightarrow> (None, w1))"

section \<open>One run of the script, and a session\<close>

text \<open>
  A run of \<open>main\<close> shows the page the user is on with what the user did there. The
  navigation offers the login page to a user who is not logged in, and the processing,
  collection and logout pages to one who is; a page that is not offered does not run.
  The collection page works on the disk only and is not part of the wizard.
\<close>

datatype 'img page =
    LoginPage bool string string
  | ProcessPage "'img widgets"
  | LogoutPage bool

record 'img program =
  the_application :: application
  the_environment :: environment
  the_library :: "'img library"

definition main :: "'img program \<Rightarrow> datetime \<Rightarrow> 'img page \<Rightarrow> 'img world \<Rightarrow> error option \<times> 'img world" where
  "main prog now pg w =
     (let w1 = set_logging_in_state_if_not_logged_in w;
          (app_state, w2) = get_app_state w1
      in if is_logged_in app_state
         then (case pg of
                 ProcessPage inp \<Rightarrow> process_image (the_library prog) inp w2
               | LogoutPage button \<Rightarrow> do_logout button w2
               | LoginPage submit u p \<Rightarrow> (None, w2))
         else (case pg of
                 LoginPage submit u p \<Rightarrow>
                   do_login (the_application prog) (the_environment prog) now submit u p w2
               | _ \<Rightarrow> (None, w2)))"

text \<open>A session is a sequence of runs; an exception ends a run and the session goes on.\<close>

fun session :: "'img program \<Rightarrow> (datetime \<times> 'img page) list \<Rightarrow> 'img world \<Rightarrow> 'img world" where
  "session prog [] w = w"
| "session prog ((now, pg) # rest) w = session prog rest (snd (main prog now pg w))"

definition new_session :: "process \<Rightarrow> filesystem \<Rightarrow> 'img world" where
  "new_session p fs =
     \<lparr>app_state_var = None, settings_var = None, process_of = p, disk = fs, shown = []\<rparr>"


section \<open>Concrete inputs\<close>

text \<open>
  A process with one user in the local database, a stand-in for the libraries in which
  an image is its own encoding, and a receipt as it is being processed.
\<close>

definition example_environment :: environment where
  "example_environment =
     \<lparr>sqlite_db = Table [(''og'', DbBytes ''hash-of-secret'')],
      DATABASE_URL = None,
      postgresql_db = Unreachable,
      checkpw = (\<lambda>pw h. Inr (h = ''hash-of-'' @ pw))\<rparr>"

definition example_library :: "bytes library" where
  "example_library =
     \<lparr>Image_open = (\<lambda>b. if b = [] then Inl LibraryError else Inr b),
      Image_save = (\<lambda>img. if img = [] then Inl LibraryError else Inr img),
      Image_rotate = (\<lambda>img d. img),
      sha256_hexdigest = (\<lambda>b. ''0a''),
      b64encode = (\<lambda>b. b),
      strptime = (\<lambda>s f. None),
      frame_encoding = (\<lambda>df. ''frame''),
      BaseModel_attributes =
        [''model_dump_json'' \<mapsto> PyObject, ''__module__'' \<mapsto> PyStr ''library.settings'']\<rparr>"

definition example_application :: application where
  "example_application =
     \<lparr>Settings_init =
        (\<lambda>u. Inr \<lparr>data = \<lparr>root_dir = [''/'', ''data''], extraction_subdir = ''extraction'',
                            collation_subdir = ''collation'', use_user = False,
                            data_username = Some u\<rparr>\<rparr>),
      setup_logging = (\<lambda>s. None)\<rparr>"

definition example_program :: "bytes program" where
  "example_program =
     \<lparr>the_application = example_application,
      the_environment = example_environment,
      the_library = example_library\<rparr>"

definition example_receipt :: Receipt where
  "example_receipt =
     \<lparr>shop = \<lparr>shop_name = ''Edeka'', date_str = ''2021-05-13'', time_str = ''16:46'',
               shop_total = 2\<rparr>,
      items = [\<lparr>item_name = ''BIO BANANEN'', price = 2, item_count = Some 1, mass = None,
                tax = Some ''A'', category = Some fruits\<rparr>]\<rparr>"

definition example_handler :: "bytes ImageHandler" where
  "example_handler =
     (ImageHandler_init [''/'', ''data'', ''extraction'', ''receipt.jpg-0a''] ''jpeg'' ''jpeg''
        ''receipt.jpg'')
       \<lparr>extracted_receipt_info := Some example_receipt\<rparr>"

definition example_disk :: filesystem where
  "example_disk =
     \<lparr>directories = {[''/''], [''/'', ''data''], [''/'', ''data'', ''extraction'']},
      files = Map.empty,
      logged = []\<rparr>"

text \<open>The disk after \<open>example_handler\<close> has been saved to \<open>example_disk\<close>.\<close>

definition example_saved_disk :: filesystem where
  "example_saved_disk =
     \<lparr>directories = {[''/''], [''/'', ''data''], [''/'', ''data'', ''extraction''],
                      [''/'', ''data'', ''extraction'', ''receipt.jpg-0a'']},
      files =
        [[''/'', ''data'', ''extraction'', ''receipt.jpg-0a'', ''original-image.jpg'']
           \<mapsto> Binary ''jpeg'',
         [''/'', ''data'', ''extraction'', ''receipt.jpg-0a'', ''shop-info.json'']
           \<mapsto> JsonFile (ShopFrame
               [\<lparr>col_name = Some ''Edeka'', col_date = None, col_time = None,
                  col_total = Some 2, col_date_str = Some ''2021-05-13'',
                  col_time_str = Some ''16:46''\<rparr>]),
         [''/'', ''data'', ''extraction'', ''receipt.jpg-0a'', ''shop-info.parquet'']
           \<mapsto> ParquetFile (ShopFrame
               [\<lparr>col_name = Some ''Edeka'', col_date = None, col_time = None,
                  col_total = Some 2, col_date_str = Some ''2021-05-13'',
                  col_time_str = Some ''16:46''\<rparr>]),
         [''/'', ''data'', ''extraction'', ''receipt.jpg-0a'', ''items-info.json'']
           \<mapsto> JsonFile (ItemsFrame
               [\<lparr>icol_name = Some ''BIO BANANEN'', icol_price = Some 2, icol_count = Some 1,
                  icol_mass = None, icol_tax = Some ''A'', icol_category = Some ''Fruits''\<rparr>]),
         [''/'', ''data'', ''extraction'', ''receipt.jpg-0a'', ''items-info.parquet'']
           \<mapsto> ParquetFile (ItemsFrame
               [\<lparr>icol_name = Some ''BIO BANANEN'', icol_price = Some 2, icol_count = Some 1,
                  icol_mass = None, icol_tax = Some ''A'', icol_category = Some ''Fruits''\<rparr>])],
      logged = [(ERROR, ''Could not save edited_image'')]\<rparr>"

text \<open>
  A stand-in whose encoder writes other bytes than the image was read from, as a JPEG
  encoder does for an image that was decoded from a PNG upload.
\<close>

definition reencoding_library :: "bytes library" where
  "reencoding_library =
     example_library
       \<lparr>Image_save := (\<lambda>img. if img = [] then Inl LibraryError else Inr (''JFIF'' @ img))\<rparr>"

definition example_process :: process where
  "example_process = \<lparr>rate_limiter = RateLimiter_init, db_calls = []\<rparr>"

definition example_world :: "bytes world" where
  "example_world =
     \<lparr>app_state_var =
        Some \<lparr>state = WRANGLE, is_logged_in = True, image_handler = Some example_handler,
              state_username = Some ''og''\<rparr>,
      settings_var = None,
      process_of = example_process,
      disk = example_disk,
      shown = []\<rparr>"

section \<open>The rate limiter\<close>

lemma increment_Some: "\<exists>a. increment now user attempts user = Some a"
  by (simp add: increment_def Let_def split: option.split)

lemma check_limit_exceeded_snd:
  "snd (check_limit_exceeded now user attempts) = increment now user attempts"
  by (simp add: check_limit_exceeded_def Let_def split: option.split)

lemma check_limit_exceeded_fst:
  "fst (check_limit_exceeded now user attempts) =
     Inr (\<exists>a. increment now user attempts user = Some a \<and> count a > RATE_LIMIT_COUNT)"
  using increment_Some [of now user attempts]
  by (auto simp add: check_limit_exceeded_def Let_def split: option.split)

lemma check_limit_exceeded_fresh:
  "attempts user = None \<Longrightarrow> fst (check_limit_exceeded now user attempts) = Inr False"
  by (simp add: check_limit_exceeded_def increment_def RATE_LIMIT_COUNT_def)

lemma check_limit_exceeded_second:
  assumes "attempts user = None" and "t2 - t1 \<le> timedelta_seconds RATE_LIMIT_WINDOW"
  shows "fst (check_limit_exceeded t2 user (snd (check_limit_exceeded t1 user attempts))) = Inr True"
  using assms
  by (simp add: check_limit_exceeded_def increment_def RATE_LIMIT_COUNT_def Let_def)

text \<open>Every call of \<open>increment\<close> changes the table, so a call never goes unnoticed.\<close>

lemma increment_changes: "increment now user attempts \<noteq> attempts"
proof
  assume eq: "increment now user attempts = attempts"
  show False
  proof (cases "attempts user")
    case None
    have "increment now user attempts user \<noteq> None"
      by (simp add: increment_def Let_def split: option.split)
    with eq None show False by simp
  next
    case (Some a)
    have "increment now user attempts user =
        Some (if now - last_time a > timedelta_seconds RATE_LIMIT_WINDOW
              then a\<lparr>count := 1, last_time := now\<rparr> else a\<lparr>count := count a + 1\<rparr>)"
      using Some by (simp add: increment_def Let_def)
    with eq Some have *: "(if now - last_time a > timedelta_seconds RATE_LIMIT_WINDOW
              then a\<lparr>count := 1, last_time := now\<rparr> else a\<lparr>count := count a + 1\<rparr>) = a"
      by simp
    show False
    proof (cases "now - last_time a > timedelta_seconds RATE_LIMIT_WINDOW")
      case True
      with * have "a\<lparr>count := 1, last_time := now\<rparr> = a" by simp
      then have "last_time (a\<lparr>count := 1, last_time := now\<rparr>) = last_time a" by simp
      then have "now = last_time a" by simp
      with True show False by (simp add: timedelta_seconds_def RATE_LIMIT_WINDOW_def)
    next
      case False
      with * have "a\<lparr>count := count a + 1\<rparr> = a" by simp
      then have "count (a\<lparr>count := count a + 1\<rparr>) = count a" by simp
      then show False by simp
    qed
  qed
qed

text \<open>
  C2, as the specification states it, fails: an attempt inside the window leaves
  \<open>last_time\<close> where it was. Ten seconds after the first attempt the count is 2 and
  \<open>last_time\<close> is still 0, not the current time.
\<close>

theorem increment_counterexample:
  "[''og'' \<mapsto> \<lparr>count = 1, last_time = 0\<rparr>] ''og'' = Some \<lparr>count = 1, last_time = 0\<rparr>
   \<and> (10000000::int) - 0 \<le> timedelta_seconds RATE_LIMIT_WINDOW
   \<and> increment 10000000 ''og'' [''og'' \<mapsto> \<lparr>count = 1, last_time = 0\<rparr>] ''og''
       = Some \<lparr>count = 2, last_time = 0\<rparr>
   \<and> increment 10000000 ''og'' [''og'' \<mapsto> \<lparr>count = 1, last_time = 0\<rparr>] ''og''
       \<noteq> Some \<lparr>count = 2, last_time = 10000000\<rparr>"
  by (simp add: increment_def timedelta_seconds_def RATE_LIMIT_WINDOW_def)

text \<open>
  C2, amended: for a user with a record, \<open>increment\<close> within the 60 seconds after
  \<open>last_time\<close> adds one to the count and keeps \<open>last_time\<close>, so the window stays
  anchored at the attempt that opened it; more than 60 seconds after \<open>last_time\<close> the
  record is reset to count 1 with \<open>last_time\<close> the current time. No other user's record
  changes.
\<close>

theorem increment_existing:
  assumes "attempts user = Some a"
  shows "timedelta_seconds RATE_LIMIT_WINDOW = 60000000
    \<and> (now - last_time a \<le> 60000000 \<longrightarrow>
         increment now user attempts user = Some \<lparr>count = count a + 1, last_time = last_time a\<rparr>)
    \<and> (now - last_time a > 60000000 \<longrightarrow>
         increment now user attempts user = Some \<lparr>count = 1, last_time = now\<rparr>)
    \<and> (\<forall>other. other \<noteq> user \<longrightarrow> increment now user attempts other = attempts other)"
  using assms
  by (simp add: increment_def timedelta_seconds_def RATE_LIMIT_WINDOW_def Let_def)

theorem increment_existing_witness:
  "increment 70000000 ''og'' [''og'' \<mapsto> \<lparr>count = 1, last_time = 10000000\<rparr>] ''og''
     = Some \<lparr>count = 2, last_time = 10000000\<rparr>
   \<and> increment 70000001 ''og'' [''og'' \<mapsto> \<lparr>count = 1, last_time = 10000000\<rparr>] ''og''
     = Some \<lparr>count = 1, last_time = 70000001\<rparr>"
  using increment_existing [of "[''og'' \<mapsto> \<lparr>count = 1, last_time = 10000000\<rparr>]" "''og''"
      "\<lparr>count = 1, last_time = 10000000\<rparr>" 70000000]
    increment_existing [of "[''og'' \<mapsto> \<lparr>count = 1, last_time = 10000000\<rparr>]" "''og''"
      "\<lparr>count = 1, last_time = 10000000\<rparr>" 70000001]
  by simp

section \<open>The credential check\<close>

lemma legit_rate_limited:
  "fst (check_limit_exceeded now (username user) (rate_limiter p)) = Inr True \<Longrightarrow>
   fst (check_is_legit_user env now user p) = Inr False"
  by (simp add: check_is_legit_user_def split_beta Let_def)

lemma check_is_legit_user_rate_limiter:
  "rate_limiter (snd (check_is_legit_user env now user p)) =
     increment now (username user) (rate_limiter p)"
  using check_limit_exceeded_snd [of now "username user" "rate_limiter p"]
  by (cases "check_limit_exceeded now (username user) (rate_limiter p)")
     (auto simp add: check_is_legit_user_def call_def Let_def split: sum.split bool.split)

lemma check_is_legit_user_changes: "snd (check_is_legit_user env now user p) \<noteq> p"
  using check_is_legit_user_rate_limiter [of env now user p]
    increment_changes [of now "username user" "rate_limiter p"]
  by auto

lemma verify_password_True:
  "verify_password env user r = Inr True \<longleftrightarrow>
     (\<exists>h. r = Inr (DbBytes h) \<and> h \<noteq> [] \<and> checkpw env (encode (password user)) h = Inr True)"
  by (auto simp add: verify_password_def bcrypt_checkpw_def split: sum.splits db_value.splits)

lemma check_is_legit_user_calls_sqlite:
  assumes "fst (check_limit_exceeded now (username user) (rate_limiter p)) = Inr False"
    and "check_sqlite_db_present env"
  shows "db_calls (snd (check_is_legit_user env now user p)) =
           db_calls p @ [ProbeSqlite, QuerySqlite (username user)]"
  using assms
  by (cases "check_limit_exceeded now (username user) (rate_limiter p)")
     (simp add: check_is_legit_user_def call_def Let_def)

lemma check_is_legit_user_calls_postgresql:
  assumes "fst (check_limit_exceeded now (username user) (rate_limiter p)) = Inr False"
    and "\<not> check_sqlite_db_present env" and "check_postgresql_db_present env"
  shows "db_calls (snd (check_is_legit_user env now user p)) =
           db_calls p @ [ProbeSqlite, ProbePostgresql, QueryPostgresql (username user)]"
  using assms
  by (cases "check_limit_exceeded now (username user) (rate_limiter p)")
     (auto simp add: check_is_legit_user_def call_def Let_def check_postgresql_db_present_def
        split: option.splits)

text \<open>
  C3: \<open>check_limit_exceeded\<close> first calls \<open>increment\<close> (the table it leaves is the
  incremented one) and answers whether the stored count is above
  \<open>RATE_LIMIT_COUNT = 1\<close>. The first call for a user without a record answers false, the
  second one within 60 seconds answers true, and when it answers true
  \<open>check_is_legit_user\<close> returns false whatever the password and the backends are.
\<close>

theorem check_limit_exceeded_spec:
  "RATE_LIMIT_COUNT = 1
   \<and> snd (check_limit_exceeded now user attempts) = increment now user attempts
   \<and> fst (check_limit_exceeded now user attempts) =
       Inr (\<exists>a. increment now user attempts user = Some a \<and> count a > 1)
   \<and> (attempts user = None \<longrightarrow> fst (check_limit_exceeded now user attempts) = Inr False)
   \<and> (attempts user = None \<and> t2 - now \<le> timedelta_seconds 60 \<longrightarrow>
        fst (check_limit_exceeded t2 user (snd (check_limit_exceeded now user attempts))) = Inr True)
   \<and> (\<forall>env u p. fst (check_limit_exceeded now (username u) (rate_limiter p)) = Inr True \<longrightarrow>
        fst (check_is_legit_user env now u p) = Inr False)"
proof -
  have 1: "RATE_LIMIT_COUNT = 1" by (simp add: RATE_LIMIT_COUNT_def)
  have 2: "fst (check_limit_exceeded now user attempts) =
       Inr (\<exists>a. increment now user attempts user = Some a \<and> count a > 1)"
    using check_limit_exceeded_fst [of now user attempts] by (simp only: 1)
  have 3: "attempts user = None \<and> t2 - now \<le> timedelta_seconds 60 \<longrightarrow>
        fst (check_limit_exceeded t2 user (snd (check_limit_exceeded now user attempts))) = Inr True"
    using check_limit_exceeded_second [of attempts user t2 now]
    by (simp add: RATE_LIMIT_WINDOW_def)
  show ?thesis
    using 1 2 3 check_limit_exceeded_snd check_limit_exceeded_fresh legit_rate_limited
    by blast
qed

theorem check_limit_exceeded_spec_witness:
  "fst (check_limit_exceeded 0 ''og'' Map.empty) = Inr False
   \<and> fst (check_limit_exceeded 59000000 ''og'' (snd (check_limit_exceeded 0 ''og'' Map.empty)))
       = Inr True
   \<and> fst (check_is_legit_user example_environment 59000000
            \<lparr>username = ''og'', password = ''secret''\<rparr>
            \<lparr>rate_limiter = snd (check_limit_exceeded 0 ''og'' Map.empty), db_calls = []\<rparr>)
       = Inr False"
proof -
  have a: "(Map.empty :: RateLimiter) ''og'' = None" by simp
  have b: "(59000000::int) - 0 \<le> timedelta_seconds 60" by (simp add: timedelta_seconds_def)
  note s = check_limit_exceeded_spec [of 0 "''og''" Map.empty 59000000]
  from s a have 1: "fst (check_limit_exceeded 0 ''og'' Map.empty) = Inr False" by blast
  from s a b have 2:
    "fst (check_limit_exceeded 59000000 ''og'' (snd (check_limit_exceeded 0 ''og'' Map.empty)))
       = Inr True"
    by blast
  from check_limit_exceeded_spec [of 59000000 "''og''" Map.empty 0]
  have 3: "\<And>env u p. fst (check_limit_exceeded 59000000 (username u) (rate_limiter p)) = Inr True \<Longrightarrow>
        fst (check_is_legit_user env 59000000 u p) = Inr False" by blast
  have "fst (check_is_legit_user example_environment 59000000
            \<lparr>username = ''og'', password = ''secret''\<rparr>
            \<lparr>rate_limiter = snd (check_limit_exceeded 0 ''og'' Map.empty), db_calls = []\<rparr>)
       = Inr False"
    by (rule 3) (simp add: 2)
  with 1 2 show ?thesis by simp
qed

text \<open>
  C1: \<open>check_is_legit_user\<close> returns true exactly when the rate limit is not exceeded,
  one of the backends is available, the hash retrieved for the user name (from the
  local database if that one is available, from the remote one otherwise) is a
  non-empty byte string, and \<open>bcrypt.checkpw\<close> accepts the encoded password against
  it. With both backends unavailable it returns false. The local database is asked
  first, and the remote one not at all when the local one is there.
\<close>

theorem check_is_legit_user_iff:
  "(fst (check_is_legit_user env now user p) = Inr True \<longleftrightarrow>
      fst (check_limit_exceeded now (username user) (rate_limiter p)) = Inr False
      \<and> (check_sqlite_db_present env \<or> check_postgresql_db_present env)
      \<and> (\<exists>h. (if check_sqlite_db_present env
                then get_user_password_in_sqlite_db env (username user)
                else get_user_password_in_postgresql_db env (username user)) = Inr (DbBytes h)
              \<and> h \<noteq> []
              \<and> checkpw env (encode (password user)) h = Inr True))
   \<and> (\<not> check_sqlite_db_present env \<and> \<not> check_postgresql_db_present env \<longrightarrow>
        fst (check_is_legit_user env now user p) = Inr False)
   \<and> (fst (check_limit_exceeded now (username user) (rate_limiter p)) = Inr False
        \<and> check_sqlite_db_present env \<longrightarrow>
        db_calls (snd (check_is_legit_user env now user p)) =
          db_calls p @ [ProbeSqlite, QuerySqlite (username user)])
   \<and> (fst (check_limit_exceeded now (username user) (rate_limiter p)) = Inr False
        \<and> \<not> check_sqlite_db_present env \<and> check_postgresql_db_present env \<longrightarrow>
        db_calls (snd (check_is_legit_user env now user p)) =
          db_calls p @ [ProbeSqlite, ProbePostgresql, QueryPostgresql (username user)])"
proof -
  obtain b where b: "fst (check_limit_exceeded now (username user) (rate_limiter p)) = Inr b"
    by (simp add: check_limit_exceeded_fst)
  have "fst (check_is_legit_user env now user p) = Inr True \<longleftrightarrow>
      fst (check_limit_exceeded now (username user) (rate_limiter p)) = Inr False
      \<and> (check_sqlite_db_present env \<or> check_postgresql_db_present env)
      \<and> (\<exists>h. (if check_sqlite_db_present env
                then get_user_password_in_sqlite_db env (username user)
                else get_user_password_in_postgresql_db env (username user)) = Inr (DbBytes h)
              \<and> h \<noteq> []
              \<and> checkpw env (encode (password user)) h = Inr True)"
    using b
    by (cases b) (auto simp add: check_is_legit_user_def split_beta Let_def verify_password_True)
  moreover have "\<not> check_sqlite_db_present env \<and> \<not> check_postgresql_db_present env \<longrightarrow>
        fst (check_is_legit_user env now user p) = Inr False"
    using b by (cases b) (auto simp add: check_is_legit_user_def split_beta Let_def)
  ultimately show ?thesis
    using check_is_legit_user_calls_sqlite [of now user p env]
      check_is_legit_user_calls_postgresql [of now user p env]
    by blast
qed

theorem check_is_legit_user_iff_witness:
  "fst (check_is_legit_user example_environment 0 \<lparr>username = ''og'', password = ''secret''\<rparr>
          example_process) = Inr True
   \<and> fst (check_is_legit_user (example_environment\<lparr>sqlite_db := Unreachable\<rparr>) 0
          \<lparr>username = ''og'', password = ''secret''\<rparr> example_process) = Inr False"
proof -
  let ?u = "\<lparr>username = ''og'', password = ''secret''\<rparr>"
  let ?e = "example_environment\<lparr>sqlite_db := Unreachable\<rparr>"
  have r: "fst (check_limit_exceeded 0 (username ?u) (rate_limiter example_process)) = Inr False"
    by (simp add: example_process_def RateLimiter_init_def check_limit_exceeded_def
        increment_def RATE_LIMIT_COUNT_def)
  have s: "check_sqlite_db_present example_environment"
    by (simp add: check_sqlite_db_present_def example_environment_def)
  have h: "get_user_password_in_sqlite_db example_environment (username ?u)
             = Inr (DbBytes ''hash-of-secret'')"
    by (simp add: get_user_password_in_sqlite_db_def example_environment_def)
  have c: "checkpw example_environment (encode (password ?u)) ''hash-of-secret'' = Inr True"
    by (simp add: example_environment_def encode_def)
  have n: "\<not> check_sqlite_db_present ?e \<and> \<not> check_postgresql_db_present ?e"
    by (simp add: check_sqlite_db_present_def check_postgresql_db_present_def
        get_railway_postgresql_connection_string_def example_environment_def)
  have 1: "fst (check_is_legit_user example_environment 0 ?u example_process) = Inr True"
    using check_is_legit_user_iff [of example_environment 0 ?u example_process] r s h c
    by auto
  have 2: "fst (check_is_legit_user ?e 0 ?u example_process) = Inr False"
    using check_is_legit_user_iff [of ?e 0 ?u example_process] n by blast
  from 1 2 show ?thesis by simp
qed

section \<open>The resume rule\<close>

text \<open>
  C4: \<open>identify_image_processing_state\<close> answers \<open>WRANGLE\<close> when the handler has
  extracted receipt data and \<open>ROTATE\<close> when it has none, whatever the \<open>cropped\<close> and
  \<open>rotated\<close> flags, the angle and the edited image are.
\<close>

theorem identify_image_processing_state_spec:
  "identify_image_processing_state
     (handler\<lparr>cropped := c, rotated := r, angle := a, edited_image := e\<rparr>) =
   (case extracted_receipt_info handler of Some receipt \<Rightarrow> WRANGLE | None \<Rightarrow> ROTATE)"
  by (simp add: identify_image_processing_state_def split: option.split)

theorem identify_image_processing_state_spec_witness:
  "identify_image_processing_state
     (example_handler\<lparr>cropped := True, rotated := False, angle := 90, edited_image := None\<rparr>)
     = WRANGLE
   \<and> identify_image_processing_state
       (example_handler\<lparr>extracted_receipt_info := None, cropped := True, rotated := True,
          angle := 0, edited_image := Some ''jpeg''\<rparr>) = ROTATE"
  using identify_image_processing_state_spec
      [where handler = example_handler and c = True and r = False and a = 90 and e = None]
    identify_image_processing_state_spec
      [where handler = "example_handler\<lparr>extracted_receipt_info := None\<rparr>" and c = True
         and r = True and a = 0 and e = "Some ''jpeg''"]
  by (simp add: example_handler_def)

section \<open>Logging in and out\<close>

lemma init_settings_frame:
  "process_of (snd (init_settings app u w)) = process_of w
   \<and> shown (snd (init_settings app u w)) = shown w
   \<and> app_state_var (snd (init_settings app u w)) = app_state_var w
   \<and> disk (snd (init_settings app u w)) = disk w"
  by (simp add: init_settings_def split: sum.split)

text \<open>
  C6, as the specification states it, fails: logging out of a session that has a user
  name and an image handler leaves both in the \<open>AppState\<close>, which therefore is not a
  freshly created one.
\<close>

theorem do_logout_counterexample:
  "app_state_var (snd (do_logout True example_world)) =
     Some \<lparr>state = LOGIN, is_logged_in = False, image_handler = Some example_handler,
           state_username = Some ''og''\<rparr>
   \<and> app_state_var (snd (do_logout True example_world)) \<noteq> Some AppState_init"
  by (simp add: do_logout_def example_world_def get_app_state_def set_app_state_def
      display_def AppState_init_def Let_def)

text \<open>
  C6, amended: the logout action sets \<open>state = LOGIN\<close> and \<open>is_logged_in = false\<close>
  and changes nothing else: the image handler and the user name stay in the
  \<open>AppState\<close>, and the settings, the rate limiter and the disk are as before.
\<close>

theorem do_logout_spec:
  "fst (do_logout True w) = None
   \<and> app_state_var (snd (do_logout True w)) =
       Some ((fst (get_app_state w))\<lparr>is_logged_in := False, state := LOGIN\<rparr>)
   \<and> (\<forall>a. app_state_var w = Some a \<longrightarrow>
         (\<exists>a'. app_state_var (snd (do_logout True w)) = Some a'
            \<and> state a' = LOGIN \<and> \<not> is_logged_in a'
            \<and> image_handler a' = image_handler a
            \<and> state_username a' = state_username a))
   \<and> settings_var (snd (do_logout True w)) = settings_var w
   \<and> process_of (snd (do_logout True w)) = process_of w
   \<and> disk (snd (do_logout True w)) = disk w"
  by (simp add: do_logout_def get_app_state_def set_app_state_def display_def Let_def
      split: option.split)

theorem do_logout_spec_witness:
  "\<exists>a'. app_state_var (snd (do_logout True example_world)) = Some a'
     \<and> state a' = LOGIN \<and> \<not> is_logged_in a'
     \<and> image_handler a' = Some example_handler
     \<and> state_username a' = Some ''og''"
proof -
  have "app_state_var example_world =
      Some \<lparr>state = WRANGLE, is_logged_in = True, image_handler = Some example_handler,
            state_username = Some ''og''\<rparr>"
    by (simp add: example_world_def)
  with do_logout_spec [of example_world] show ?thesis by auto
qed

text \<open>
  C7: when the user name or the password submitted is empty, building the \<open>User\<close>
  fails validation, the page shows ``Login failed'', and \<open>check_is_legit_user\<close> is not
  called: the rate limiter and the record of database calls are as before (every call
  of \<open>check_is_legit_user\<close> changes the rate limiter), and so is the \<open>AppState\<close>.
\<close>

theorem do_login_empty:
  assumes "user_input = [] \<or> password_input = []"
  shows "User_init user_input password_input = Inl ValidationError
    \<and> shown (snd (do_login app env now True user_input password_input w)) =
        shown w @ [Markdown ''## Login'', Error ''Login failed'']
    \<and> process_of (snd (do_login app env now True user_input password_input w)) = process_of w
    \<and> app_state_var (snd (do_login app env now True user_input password_input w)) = app_state_var w
    \<and> (\<forall>user p. snd (check_is_legit_user env now user p) \<noteq> p)"
proof -
  have u: "User_init user_input password_input = Inl ValidationError"
    using assms by (auto simp add: User_init_def min_length_def)
  let ?w1 = "display (Error ''Login failed'') (display (Markdown ''## Login'') w)"
  have d: "do_login app env now True user_input password_input w =
      and_then (init_settings app user_input ?w1) (\<lambda>w2. (None, w2))"
    by (simp add: do_login_def u Let_def)
  have s: "snd (do_login app env now True user_input password_input w) =
      snd (init_settings app user_input ?w1)"
    unfolding d
    by (cases "init_settings app user_input ?w1") (auto simp add: and_then_def split: option.split)
  show ?thesis
    using init_settings_frame [of app user_input ?w1]
    by (simp add: u s display_def check_is_legit_user_changes)
qed

theorem do_login_empty_witness:
  "shown (snd (do_login example_application example_environment 0 True [] []
                 (new_session example_process example_disk :: bytes world))) =
     [Markdown ''## Login'', Error ''Login failed'']
   \<and> process_of (snd (do_login example_application example_environment 0 True ''og'' []
                 (new_session example_process example_disk :: bytes world))) = example_process"
proof -
  let ?w = "new_session example_process example_disk :: bytes world"
  have a: "([]::string) = [] \<or> ([]::string) = []" by simp
  have b: "''og'' = [] \<or> ([]::string) = []" by simp
  have s: "shown ?w = []" and p: "process_of ?w = example_process"
    by (simp_all add: new_session_def)
  from do_login_empty [OF a, of example_application example_environment 0 ?w]
    do_login_empty [OF b, of example_application example_environment 0 ?w] s p
  show ?thesis by simp
qed

section \<open>The wizard never reaches SAVE\<close>

lemma do_login_no_SAVE:
  assumes "\<forall>a. app_state_var w = Some a \<longrightarrow> state a \<noteq> SAVE"
  shows "\<forall>a. app_state_var (snd (do_login app env now submit u p w)) = Some a \<longrightarrow> state a \<noteq> SAVE"
  using assms
  by (auto simp add: do_login_def Let_def display_def and_then_def split_beta
      get_app_state_def set_app_state_def AppState_init_def init_settings_def
      split: sum.splits option.splits bool.splits if_splits)

lemma do_logout_no_SAVE:
  assumes "\<forall>a. app_state_var w = Some a \<longrightarrow> state a \<noteq> SAVE"
  shows "\<forall>a. app_state_var (snd (do_logout button w)) = Some a \<longrightarrow> state a \<noteq> SAVE"
  using assms
  by (auto simp add: do_logout_def Let_def display_def get_app_state_def set_app_state_def
      split_beta split: option.splits)

lemma identify_no_SAVE: "identify_image_processing_state h \<noteq> SAVE"
  by (simp add: identify_image_processing_state_def)

lemma do_upload_image_no_SAVE:
  assumes "\<forall>a. app_state_var w = Some a \<longrightarrow> state a \<noteq> SAVE"
  shows "\<forall>a. app_state_var (snd (do_upload_image lib inp w)) = Some a \<longrightarrow> state a \<noteq> SAVE"
  using assms
  by (auto simp add: do_upload_image_def Let_def display_def and_then_def put_disk_def split_beta
      get_app_state_def set_app_state_def AppState_init_def identify_no_SAVE
      split: sum.splits option.splits if_splits)

lemma do_rotate_no_SAVE:
  assumes "\<forall>a. app_state_var w = Some a \<longrightarrow> state a \<noteq> SAVE"
  shows "\<forall>a. app_state_var (snd (do_rotate lib inp w)) = Some a \<longrightarrow> state a \<noteq> SAVE"
  using assms
  by (auto simp add: do_rotate_def Let_def display_def and_then_def put_disk_def split_beta
      get_app_state_def set_app_state_def AppState_init_def
      split: sum.splits option.splits if_splits)

lemma do_crop_no_SAVE:
  assumes "\<forall>a. app_state_var w = Some a \<longrightarrow> state a \<noteq> SAVE"
  shows "\<forall>a. app_state_var (snd (do_crop lib inp w)) = Some a \<longrightarrow> state a \<noteq> SAVE"
  using assms
  by (auto simp add: do_crop_def Let_def display_def and_then_def put_disk_def split_beta
      get_app_state_def set_app_state_def AppState_init_def
      split: sum.splits option.splits if_splits)

lemma do_extract_no_SAVE:
  assumes "\<forall>a. app_state_var w = Some a \<longrightarrow> state a \<noteq> SAVE"
  shows "\<forall>a. app_state_var (snd (do_extract lib inp w)) = Some a \<longrightarrow> state a \<noteq> SAVE"
  using assms
  by (auto simp add: do_extract_def Let_def display_def and_then_def put_disk_def split_beta
      get_app_state_def set_app_state_def AppState_init_def get_settings_def
      split: sum.splits option.splits if_splits)

lemma do_wrangle_no_SAVE:
  assumes "\<forall>a. app_state_var w = Some a \<longrightarrow> state a \<noteq> SAVE"
  shows "\<forall>a. app_state_var (snd (do_wrangle lib inp w)) = Some a \<longrightarrow> state a \<noteq> SAVE"
  using assms
  by (auto simp add: do_wrangle_def Let_def display_def and_then_def put_disk_def split_beta
      get_app_state_def set_app_state_def AppState_init_def
      split: sum.splits option.splits if_splits)

lemma do_done_no_SAVE:
  "\<forall>a. app_state_var (snd (do_done w)) = Some a \<longrightarrow> state a \<noteq> SAVE"
  by (auto simp add: do_done_def Let_def display_def get_app_state_def set_app_state_def
      split_beta split: option.splits)

lemma get_app_state_no_SAVE:
  assumes "\<forall>a. app_state_var w = Some a \<longrightarrow> state a \<noteq> SAVE"
  shows "\<forall>a. app_state_var (snd (get_app_state w)) = Some a \<longrightarrow> state a \<noteq> SAVE"
  using assms
  by (auto simp add: get_app_state_def set_app_state_def AppState_init_def split: option.splits)

lemma process_image_no_SAVE:
  assumes "\<forall>a. app_state_var w = Some a \<longrightarrow> state a \<noteq> SAVE"
  shows "\<forall>a. app_state_var (snd (process_image lib inp w)) = Some a \<longrightarrow> state a \<noteq> SAVE"
proof -
  note g = get_app_state_no_SAVE [OF assms]
  show ?thesis
    unfolding process_image_def split_beta Let_def
    by (cases "state (fst (get_app_state w))")
       (simp_all add: do_upload_image_no_SAVE [OF g] do_rotate_no_SAVE [OF g]
          do_crop_no_SAVE [OF g] do_extract_no_SAVE [OF g] do_wrangle_no_SAVE [OF g]
          do_done_no_SAVE g)
qed

lemma set_logging_in_no_SAVE:
  assumes "\<forall>a. app_state_var w = Some a \<longrightarrow> state a \<noteq> SAVE"
  shows "\<forall>a. app_state_var (snd (get_app_state (set_logging_in_state_if_not_logged_in w))) = Some a
           \<longrightarrow> state a \<noteq> SAVE"
  using assms
  by (auto simp add: set_logging_in_state_if_not_logged_in_def check_is_logged_in_def Let_def
      split_beta get_app_state_def set_app_state_def AppState_init_def split: option.splits)

lemma main_no_SAVE:
  assumes "\<forall>a. app_state_var w = Some a \<longrightarrow> state a \<noteq> SAVE"
  shows "\<forall>a. app_state_var (snd (main prog now pg w)) = Some a \<longrightarrow> state a \<noteq> SAVE"
proof -
  note g = set_logging_in_no_SAVE [OF assms]
  show ?thesis
    unfolding main_def split_beta Let_def
    by (cases pg)
       (simp_all add: process_image_no_SAVE [OF g] do_logout_no_SAVE [OF g]
          do_login_no_SAVE [OF g] g)
qed

lemma session_no_SAVE:
  assumes "\<forall>a. app_state_var w = Some a \<longrightarrow> state a \<noteq> SAVE"
  shows "\<forall>a. app_state_var (session prog events w) = Some a \<longrightarrow> state a \<noteq> SAVE"
  using assms
proof (induction events arbitrary: w)
  case Nil
  then show ?case by simp
next
  case (Cons ev events)
  obtain now pg where ev: "ev = (now, pg)" by (cases ev)
  show ?case
    unfolding ev session.simps
    by (rule Cons.IH) (rule main_no_SAVE [OF Cons.prems])
qed

text \<open>
  C9: starting from a new session, whose \<open>AppState\<close> is created with
  \<open>state = LOGIN\<close> on first access, no sequence of runs of the login page, of the
  processing page in any of its steps (upload, rotate, crop, extract, wrangle, done) and
  of the logout page leaves an \<open>AppState\<close> with \<open>state = SAVE\<close>, whatever the
  user enters and whatever the libraries and the services answer.
\<close>

theorem SAVE_unreachable:
  "app_state_var (session prog events (new_session p fs)) = Some a \<Longrightarrow> state a \<noteq> SAVE"
  using session_no_SAVE [of "new_session p fs" prog events]
  by (simp add: new_session_def)


theorem SAVE_unreachable_witness:
  "app_state_var (session example_program [(0, LoginPage True ''og'' ''secret'')]
                    (new_session example_process example_disk)) =
     Some \<lparr>state = UPLOAD, is_logged_in = True, image_handler = None,
           state_username = Some ''og''\<rparr>
   \<and> state \<lparr>state = UPLOAD, is_logged_in = True, image_handler = (None :: bytes ImageHandler option),
           state_username = Some ''og''\<rparr> \<noteq> SAVE"
proof -
  have l: "check_is_legit_user example_environment 0 \<lparr>username = ''og'', password = ''secret''\<rparr>
             example_process =
           (Inr True, \<lparr>rate_limiter = [''og'' \<mapsto> \<lparr>count = 1, last_time = 0\<rparr>],
                       db_calls = [ProbeSqlite, QuerySqlite ''og'']\<rparr>)"
    by (simp add: check_is_legit_user_def check_limit_exceeded_def increment_def
        example_process_def RateLimiter_init_def RATE_LIMIT_COUNT_def Let_def call_def
        check_sqlite_db_present_def example_environment_def verify_password_def
        get_user_password_in_sqlite_db_def bcrypt_checkpw_def encode_def)
  have e: "app_state_var (session example_program [(0, LoginPage True ''og'' ''secret'')]
                    (new_session example_process example_disk)) =
     Some \<lparr>state = UPLOAD, is_logged_in = True, image_handler = None,
           state_username = Some ''og''\<rparr>"
    by (simp add: main_def set_logging_in_state_if_not_logged_in_def check_is_logged_in_def
        get_app_state_def set_app_state_def AppState_init_def new_session_def Let_def
        example_program_def do_login_def display_def User_init_def min_length_def
        and_then_def init_settings_def example_application_def l)
  from SAVE_unreachable [OF e] e show ?thesis by simp
qed

section \<open>Target paths\<close>

lemma get_target_file_path_declared:
  "get_target_file_path lib self ''original_image'' =
     Inr (truediv (target_directory self) (original_image_name (target_file_names self)))"
  "get_target_file_path lib self ''rotated_image'' =
     Inr (truediv (target_directory self) (rotated_image_name (target_file_names self)))"
  "get_target_file_path lib self ''cropped_image'' =
     Inr (truediv (target_directory self) (cropped_image_name (target_file_names self)))"
  "get_target_file_path lib self ''edited_image'' =
     Inr (truediv (target_directory self) (edited_image_name (target_file_names self)))"
  "get_target_file_path lib self ''shop_info_json'' =
     Inr (truediv (target_directory self) (shop_info_json_name (target_file_names self)))"
  "get_target_file_path lib self ''shop_info_parquet'' =
     Inr (truediv (target_directory self) (shop_info_parquet_name (target_file_names self)))"
  "get_target_file_path lib self ''items_info_json'' =
     Inr (truediv (target_directory self) (items_info_json_name (target_file_names self)))"
  "get_target_file_path lib self ''items_info_parquet'' =
     Inr (truediv (target_directory self) (items_info_parquet_name (target_file_names self)))"
  by (simp_all add: get_target_file_path_def StoredFileNames_getattr_def)

lemma get_target_file_path_no_attribute:
  assumes "nm \<notin> {''original_image'', ''rotated_image'', ''cropped_image'', ''edited_image'',
                  ''shop_info_json'', ''shop_info_parquet'', ''items_info_json'',
                  ''items_info_parquet''}"
    and "BaseModel_attributes lib nm = None"
  shows "get_target_file_path lib self nm = Inl ValueError"
  using assms by (simp add: get_target_file_path_def StoredFileNames_getattr_def)

text \<open>
  C10 holds for the eight declared names and for a name under which the
  \<open>StoredFileNames\<close> instance has nothing. It fails for a name that is no field but
  an attribute all the same, because the check is \<open>hasattr\<close>: for a method such as
  \<open>model_dump_json\<close>, which the function itself calls on the instance, the join
  raises a \<open>TypeError\<close>, and for an attribute that is a string the function returns a
  path.
\<close>

theorem get_target_file_path_attribute:
  assumes "nm \<notin> {''original_image'', ''rotated_image'', ''cropped_image'', ''edited_image'',
                  ''shop_info_json'', ''shop_info_parquet'', ''items_info_json'',
                  ''items_info_parquet''}"
  shows "(BaseModel_attributes lib nm = Some PyObject \<longrightarrow>
            get_target_file_path lib self nm = Inl TypeError)
       \<and> (\<forall>s. BaseModel_attributes lib nm = Some (PyStr s) \<longrightarrow>
            get_target_file_path lib self nm = Inr (truediv (target_directory self) s))"
  using assms by (simp add: get_target_file_path_def StoredFileNames_getattr_def)

theorem get_target_file_path_attribute_witness:
  "get_target_file_path example_library example_handler ''model_dump_json'' = Inl TypeError
   \<and> get_target_file_path example_library example_handler ''model_dump_json'' \<noteq> Inl ValueError"
proof -
  have a: "''model_dump_json'' \<notin> {''original_image'', ''rotated_image'', ''cropped_image'',
             ''edited_image'', ''shop_info_json'', ''shop_info_parquet'', ''items_info_json'',
             ''items_info_parquet''}"
    by simp
  have b: "BaseModel_attributes example_library ''model_dump_json'' = Some PyObject"
    by (simp add: example_library_def)
  from get_target_file_path_attribute [OF a, of example_library example_handler] b
  show ?thesis by simp
qed

section \<open>Writing over existing files\<close>

lemma save_image_as_jpg_file_skip:
  assumes "path_exists fs image_path" and "path_exists fs (parent image_path)"
  shows "save_image_as_jpg_file lib image_path image_obj False mkdir fs =
           (None, fs\<lparr>logged := logged fs @ [(WARNING, ''File already exists, skipping creation.'')]\<rparr>)"
  using assms by (simp add: save_image_as_jpg_file_def and_then_def Let_def logger_def)

lemma write_file_result:
  assumes "fst (write_file fs p content) = None"
  shows "files (snd (write_file fs p content)) p = Some content"
  using assms by (simp add: write_file_def split: if_splits)

lemma Pillow_save_written:
  assumes "(case write_file fs1 p (Binary []) of
              (Some e, fs2) \<Rightarrow> (Some e, fs1)
            | (None, opened) \<Rightarrow>
                (case Image_save lib img of
                   Inl e \<Rightarrow> (Some e, if files fs1 p = None then fs1 else opened)
                 | Inr b \<Rightarrow> write_file opened p (Binary b))) = (None, fs')"
  shows "\<exists>b. Image_save lib img = Inr b \<and> write_file fs1 p (Binary b) = (None, fs')"
  using assms
  by (cases "Image_save lib img") (auto simp add: write_file_def split: if_splits)

lemma save_image_as_jpg_file_overwrite:
  assumes "fst (save_image_as_jpg_file lib image_path image_obj True mkdir fs) = None"
  shows "\<exists>b. files (snd (save_image_as_jpg_file lib image_path image_obj True mkdir fs)) image_path
               = Some (Binary b)
             \<and> (image_obj = ImageBytes b \<or> (\<exists>img. image_obj = ImagePIL img \<and> Image_save lib img = Inr b))"
proof -
  let ?pre = "if \<not> path_exists fs (parent image_path) \<and> mkdir
              then mkdir_path fs (parent image_path) else (None, fs)"
  obtain e fs1 where pre: "?pre = (e, fs1)" by (cases ?pre)
  from assms pre have e: "e = None"
    by (auto simp add: save_image_as_jpg_file_def and_then_def Let_def
        split: if_splits option.splits)
  show ?thesis
  proof (cases image_obj)
    case (ImageBytes b)
    with assms pre e show ?thesis
      using write_file_result [of fs1 image_path "Binary b"]
      by (auto simp add: save_image_as_jpg_file_def and_then_def Let_def split: if_splits)
  next
    case (ImagePIL img)
    with assms pre e obtain fs' where
      "(case write_file fs1 image_path (Binary []) of
          (Some err, fs2) \<Rightarrow> (Some err, fs1)
        | (None, opened) \<Rightarrow>
            (case Image_save lib img of
               Inl err \<Rightarrow> (Some err, if files fs1 image_path = None then fs1 else opened)
             | Inr b \<Rightarrow> write_file opened image_path (Binary b))) = (None, fs')"
      and "snd (save_image_as_jpg_file lib image_path image_obj True mkdir fs) = fs'"
      by (cases "save_image_as_jpg_file lib image_path image_obj True mkdir fs")
         (auto simp add: save_image_as_jpg_file_def and_then_def Let_def split: if_splits)
    with Pillow_save_written [of fs1 image_path lib img fs'] obtain b where
      b: "Image_save lib img = Inr b" and w: "write_file fs1 image_path (Binary b) = (None, fs')"
      and s: "snd (save_image_as_jpg_file lib image_path image_obj True mkdir fs) = fs'"
      by blast
    from w write_file_result [of fs1 image_path "Binary b"]
    have "files fs' image_path = Some (Binary b)" by simp
    with b s ImagePIL show ?thesis by simp
  next
    case ImageOther
    with assms pre e show ?thesis
      by (auto simp add: save_image_as_jpg_file_def and_then_def Let_def split: if_splits)
  qed
qed

lemma save_image_as_jpg_file_bytes:
  assumes "parent image_path \<in> directories fs" and "image_path \<notin> directories fs"
  shows "save_image_as_jpg_file lib image_path (ImageBytes b) True mkdir fs =
           (None, fs\<lparr>files := (files fs)(image_path \<mapsto> Binary b)\<rparr>)"
  using assms
  by (simp add: save_image_as_jpg_file_def and_then_def Let_def path_exists_def write_file_def)

lemma save_dataframe_skip:
  assumes "path_exists fs json_path" and "path_exists fs parquet_path"
  shows "save_dataframe df nm json_path parquet_path False fs = (None, fs)"
  using assms by (simp add: save_dataframe_def and_then_def)

lemma save_dataframe_keeps:
  assumes "path_exists fs p" and "p = json_path \<or> p = parquet_path"
  shows "files (snd (save_dataframe df nm json_path parquet_path False fs)) p = files fs p"
  using assms
  by (auto simp add: save_dataframe_def and_then_def write_file_def path_exists_def
      split: if_splits option.splits)

lemma save_dataframe_overwrite:
  assumes "fst (save_dataframe df nm json_path parquet_path True fs) = None"
  shows "files (snd (save_dataframe df nm json_path parquet_path True fs)) parquet_path
           = Some (ParquetFile df)
       \<and> (json_path \<noteq> parquet_path \<longrightarrow>
            files (snd (save_dataframe df nm json_path parquet_path True fs)) json_path
              = Some (JsonFile df))"
  using assms
  by (auto simp add: save_dataframe_def and_then_def write_file_def split: if_splits option.splits)

text \<open>
  C8, as the specification states it, fails for data frames: with both target files
  there and \<open>overwrite = False\<close>, \<open>save_dataframe\<close> returns and leaves the files
  alone, but it logs no warning (it has no call of \<open>logger.warning\<close>), whereas
  \<open>save_image_as_jpg_file\<close> does.
\<close>

theorem overwrite_counterexample:
  "save_dataframe (ItemsFrame []) ''items'' [''/'', ''r'', ''items-info.json'']
      [''/'', ''r'', ''items-info.parquet''] False
      \<lparr>directories = {[''/''], [''/'', ''r'']},
       files = [[''/'', ''r'', ''items-info.json''] \<mapsto> JsonFile (ShopFrame []),
                [''/'', ''r'', ''items-info.parquet''] \<mapsto> ParquetFile (ShopFrame [])],
       logged = []\<rparr>
   = (None,
      \<lparr>directories = {[''/''], [''/'', ''r'']},
       files = [[''/'', ''r'', ''items-info.json''] \<mapsto> JsonFile (ShopFrame []),
                [''/'', ''r'', ''items-info.parquet''] \<mapsto> ParquetFile (ShopFrame [])],
       logged = []\<rparr>)"
  by (simp add: save_dataframe_def and_then_def path_exists_def)

text \<open>
  C8, amended: a call of \<open>save_image_as_jpg_file\<close> or \<open>save_dataframe\<close> with
  \<open>overwrite = False\<close> whose target exists (in a directory that exists, as every
  file's does) returns without an error and leaves directories and files as they were;
  the image function logs a warning about the skip, the data frame function logs no
  warning. A target of \<open>save_dataframe\<close> that exists keeps its content also when the
  other one is written. With \<open>overwrite = True\<close> a call that returns has written the
  new content to the target, and writing bytes into an existing directory does return.
\<close>

theorem overwrite_spec:
  "(path_exists fs image_path \<and> path_exists fs (parent image_path) \<longrightarrow>
      save_image_as_jpg_file lib image_path image_obj False mkdir fs =
        (None, fs\<lparr>logged := logged fs @ [(WARNING, ''File already exists, skipping creation.'')]\<rparr>))
   \<and> (path_exists fs json_path \<and> path_exists fs parquet_path \<longrightarrow>
      save_dataframe df nm json_path parquet_path False fs = (None, fs))
   \<and> (path_exists fs json_path \<longrightarrow>
      files (snd (save_dataframe df nm json_path parquet_path False fs)) json_path
        = files fs json_path)
   \<and> (path_exists fs parquet_path \<longrightarrow>
      files (snd (save_dataframe df nm json_path parquet_path False fs)) parquet_path
        = files fs parquet_path)
   \<and> (fst (save_image_as_jpg_file lib image_path image_obj True mkdir fs) = None \<longrightarrow>
      (\<exists>b. files (snd (save_image_as_jpg_file lib image_path image_obj True mkdir fs)) image_path
               = Some (Binary b)
          \<and> (image_obj = ImageBytes b
              \<or> (\<exists>img. image_obj = ImagePIL img \<and> Image_save lib img = Inr b))))
   \<and> (parent image_path \<in> directories fs \<and> image_path \<notin> directories fs \<longrightarrow>
      save_image_as_jpg_file lib image_path (ImageBytes new_content) True mkdir fs =
        (None, fs\<lparr>files := (files fs)(image_path \<mapsto> Binary new_content)\<rparr>))
   \<and> (fst (save_dataframe df nm json_path parquet_path True fs) = None \<longrightarrow>
      files (snd (save_dataframe df nm json_path parquet_path True fs)) parquet_path
        = Some (ParquetFile df)
      \<and> (json_path \<noteq> parquet_path \<longrightarrow>
           files (snd (save_dataframe df nm json_path parquet_path True fs)) json_path
             = Some (JsonFile df)))"
  using save_image_as_jpg_file_skip [of fs image_path lib image_obj mkdir]
    save_dataframe_skip [of fs json_path parquet_path df nm]
    save_dataframe_keeps [of fs json_path json_path parquet_path df nm]
    save_dataframe_keeps [of fs parquet_path json_path parquet_path df nm]
    save_image_as_jpg_file_overwrite [of lib image_path image_obj mkdir fs]
    save_image_as_jpg_file_bytes [of image_path fs lib new_content mkdir]
    save_dataframe_overwrite [of df nm json_path parquet_path fs]
  by blast

theorem overwrite_spec_witness:
  "save_image_as_jpg_file example_library [''/'', ''data'', ''test.jpg''] (ImageBytes ''new content'')
     False True (example_disk\<lparr>files := [[''/'', ''data'', ''test.jpg''] \<mapsto> Binary []]\<rparr>)
   = (None, example_disk\<lparr>files := [[''/'', ''data'', ''test.jpg''] \<mapsto> Binary []],
              logged := [(WARNING, ''File already exists, skipping creation.'')]\<rparr>)
   \<and> save_image_as_jpg_file example_library [''/'', ''data'', ''test.jpg''] (ImageBytes ''new content'')
     True True (example_disk\<lparr>files := [[''/'', ''data'', ''test.jpg''] \<mapsto> Binary []]\<rparr>)
   = (None, example_disk\<lparr>files := [[''/'', ''data'', ''test.jpg''] \<mapsto> Binary ''new content'']\<rparr>)"
proof -
  let ?p = "[''/'', ''data'', ''test.jpg'']"
  let ?fs = "example_disk\<lparr>files := [?p \<mapsto> Binary []]\<rparr>"
  have pp: "parent ?p = [''/'', ''data'']" by (simp add: parent_def)
  have a: "path_exists ?fs ?p \<and> path_exists ?fs (parent ?p)"
    by (simp add: pp path_exists_def example_disk_def)
  have b: "parent ?p \<in> directories ?fs \<and> ?p \<notin> directories ?fs"
    by (simp add: pp example_disk_def)
  have l: "logged ?fs = []" by (simp add: example_disk_def)
  note s = overwrite_spec [where fs = ?fs and image_path = ?p and lib = example_library
      and image_obj = "ImageBytes ''new content''" and mkdir = True
      and new_content = "''new content''"]
  from s a have 1: "save_image_as_jpg_file example_library ?p (ImageBytes ''new content'')
     False True ?fs
     = (None, ?fs\<lparr>logged := logged ?fs @ [(WARNING, ''File already exists, skipping creation.'')]\<rparr>)"
    by blast
  from s b have 2: "save_image_as_jpg_file example_library ?p (ImageBytes ''new content'')
     True True ?fs = (None, ?fs\<lparr>files := (files ?fs)(?p \<mapsto> Binary ''new content'')\<rparr>)"
    by blast
  show ?thesis
    unfolding 1 2 by (simp add: l)
qed

section \<open>Saving a handler and loading it again\<close>

lemma truediv_default_names:
  "truediv dir ''original-image.jpg'' = dir @ [''original-image.jpg'']"
  "truediv dir ''edited-image.jpg'' = dir @ [''edited-image.jpg'']"
  "truediv dir ''shop-info.json'' = dir @ [''shop-info.json'']"
  "truediv dir ''shop-info.parquet'' = dir @ [''shop-info.parquet'']"
  "truediv dir ''items-info.json'' = dir @ [''items-info.json'']"
  "truediv dir ''items-info.parquet'' = dir @ [''items-info.parquet'']"
  by (simp_all add: truediv_def Path_of_def is_absolute_def is_root_def Let_def)

lemma parent_snoc: "\<not> is_root n \<Longrightarrow> parent (dir @ [n]) = dir"
  by (cases dir) (auto simp add: parent_def split: list.splits)

lemma name_snoc: "\<not> is_root n \<Longrightarrow> name (dir @ [n]) = n"
  by (simp add: name_def)

lemma snoc_neq_self: "dir @ [n] \<noteq> dir"
  by simp

lemma save_image_as_jpg_file_written:
  assumes "save_image_as_jpg_file lib p (ImagePIL i) ov mk fs = (None, fs')"
    and "ov \<or> \<not> path_exists fs p" and "parent p \<noteq> p"
  shows "\<exists>b. Image_save lib i = Inr b \<and> files fs' = (files fs)(p \<mapsto> Binary b)
           \<and> (\<forall>q. q \<noteq> parent p \<longrightarrow> (q \<in> directories fs' \<longleftrightarrow> q \<in> directories fs))"
proof -
  let ?pre = "if \<not> path_exists fs (parent p) \<and> mk then mkdir_path fs (parent p) else (None, fs)"
  obtain e fs1 where pre: "?pre = (e, fs1)" by (cases ?pre)
  from assms(1) pre have e: "e = None"
    by (auto simp add: save_image_as_jpg_file_def and_then_def Let_def
        split: if_splits option.splits)
  from pre e have f1: "files fs1 = files fs"
    and d1: "\<forall>q. q \<noteq> parent p \<longrightarrow> (q \<in> directories fs1 \<longleftrightarrow> q \<in> directories fs)"
    by (auto simp add: mkdir_path_def split: if_splits)
  from assms(2,3) f1 d1 have n1: "ov \<or> \<not> path_exists fs1 p"
    by (auto simp add: path_exists_def)
  from assms(1) pre e n1 have
    "(case write_file fs1 p (Binary []) of
        (Some err, fs2) \<Rightarrow> (Some err, fs1)
      | (None, opened) \<Rightarrow>
          (case Image_save lib i of
             Inl err \<Rightarrow> (Some err, if files fs1 p = None then fs1 else opened)
           | Inr b \<Rightarrow> write_file opened p (Binary b))) = (None, fs')"
    by (auto simp add: save_image_as_jpg_file_def and_then_def Let_def split: if_splits)
  from Pillow_save_written [OF this] obtain b
    where b: "Image_save lib i = Inr b" and wf: "write_file fs1 p (Binary b) = (None, fs')"
    by blast
  from wf have "files fs' = (files fs1)(p \<mapsto> Binary b)" and "directories fs' = directories fs1"
    by (auto simp add: write_file_def split: if_splits)
  with b f1 d1 show ?thesis by auto
qed

lemma save_dataframe_written:
  assumes "save_dataframe df nm j q ov fs = (None, fs')"
    and "ov \<or> \<not> path_exists fs q" and "j \<noteq> q"
  shows "files fs' q = Some (ParquetFile df)
       \<and> (\<forall>x. x \<noteq> j \<longrightarrow> x \<noteq> q \<longrightarrow> files fs' x = files fs x)
       \<and> directories fs' = directories fs"
  using assms
  by (auto simp add: save_dataframe_def and_then_def write_file_def path_exists_def
      split: if_splits option.splits)

lemma and_then_None:
  assumes "and_then r f = (None, s')"
  shows "\<exists>s. r = (None, s) \<and> f s = (None, s')"
  using assms by (cases r) (auto simp add: and_then_def split: option.splits)

lemma Item_init_model_dump: "Item_init (Item_model_dump item) = Inr item"
proof (cases "category item")
  case None
  then show ?thesis by (simp add: Item_init_def Item_model_dump_def)
next
  case (Some c)
  have "CategoryEnum_of (CategoryEnum_value c) = Some c"
    by (cases c) (simp_all add: CategoryEnum_of_def CategoryEnum_members_def)
  with Some show ?thesis by (simp add: Item_init_def Item_model_dump_def)
qed

lemma Item_init_all_model_dump: "Item_init_all (map Item_model_dump xs) = Inr xs"
  by (induction xs) (simp_all add: Item_init_model_dump bind_result_def)

lemma receipt_roundtrip:
  assumes "convert_to_dataframe_items r = Inr idf"
  shows "polars_info_dataframes_to_pydantic
           (ShopFrame (map (\<lambda>row. row\<lparr>col_time := None\<rparr>) (convert_to_dataframe_shop lib r)))
           (ItemsFrame idf) = Inr r"
proof -
  from assms have idf: "idf = map Item_model_dump (items r)"
    by (simp add: convert_to_dataframe_items_def split: if_splits)
  show ?thesis
    by (simp add: polars_info_dataframes_to_pydantic_def convert_to_dataframe_shop_def
        Shop_init_def bind_result_def idf Item_init_all_model_dump)
qed


lemma get_target_file_path_default:
  assumes "target_file_names self = StoredFileNames_init"
  shows "get_target_file_path lib self ''original_image'' =
           Inr (target_directory self @ [''original-image.jpg''])"
    and "get_target_file_path lib self ''edited_image'' =
           Inr (target_directory self @ [''edited-image.jpg''])"
    and "get_target_file_path lib self ''shop_info_json'' =
           Inr (target_directory self @ [''shop-info.json''])"
    and "get_target_file_path lib self ''shop_info_parquet'' =
           Inr (target_directory self @ [''shop-info.parquet''])"
    and "get_target_file_path lib self ''items_info_json'' =
           Inr (target_directory self @ [''items-info.json''])"
    and "get_target_file_path lib self ''items_info_parquet'' =
           Inr (target_directory self @ [''items-info.parquet''])"
  by (simp_all add: get_target_file_path_declared assms StoredFileNames_init_def
      truediv_default_names)

lemma save_summary:
  assumes names: "target_file_names h = StoredFileNames_init"
    and worig: "overwrite \<or> \<not> path_exists fs (target_directory h @ [''original-image.jpg''])"
    and wedit: "case edited_image h of
                  None \<Rightarrow> \<not> path_exists fs (target_directory h @ [''edited-image.jpg''])
                | Some e \<Rightarrow>
                    overwrite \<or> \<not> path_exists fs (target_directory h @ [''edited-image.jpg''])"
    and wextr: "case extracted_receipt_info h of
                  None \<Rightarrow> \<not> path_exists fs (target_directory h @ [''shop-info.parquet''])
                          \<and> \<not> path_exists fs (target_directory h @ [''items-info.parquet''])
                | Some r \<Rightarrow>
                    overwrite
                    \<or> (\<not> path_exists fs (target_directory h @ [''shop-info.parquet''])
                       \<and> \<not> path_exists fs (target_directory h @ [''items-info.parquet'']))"
    and saved: "save lib h mkdir overwrite fs = (None, fs')"
  shows "(\<exists>b. Image_save lib (original_image h) = Inr b
            \<and> files fs' (target_directory h @ [''original-image.jpg'']) = Some (Binary b))
       \<and> (case edited_image h of
             None \<Rightarrow> \<not> path_exists fs' (target_directory h @ [''edited-image.jpg''])
           | Some e \<Rightarrow>
               (\<exists>b. Image_save lib e = Inr b
                  \<and> files fs' (target_directory h @ [''edited-image.jpg'']) = Some (Binary b)))
       \<and> (case extracted_receipt_info h of
             None \<Rightarrow> \<not> path_exists fs' (target_directory h @ [''shop-info.parquet''])
                     \<and> \<not> path_exists fs' (target_directory h @ [''items-info.parquet''])
           | Some r \<Rightarrow>
               (\<exists>idf. convert_to_dataframe_items r = Inr idf
                  \<and> files fs' (target_directory h @ [''shop-info.parquet'']) =
                      Some (ParquetFile (ShopFrame (map (\<lambda>row. row\<lparr>col_time := None\<rparr>)
                                                    (convert_to_dataframe_shop lib r))))
                  \<and> files fs' (target_directory h @ [''items-info.parquet'']) =
                      Some (ParquetFile (ItemsFrame idf))))"
proof -
  let ?dir = "target_directory h"
  let ?po = "?dir @ [''original-image.jpg'']"
  let ?pe = "?dir @ [''edited-image.jpg'']"
  let ?sj = "?dir @ [''shop-info.json'']"
  let ?sp = "?dir @ [''shop-info.parquet'']"
  let ?ij = "?dir @ [''items-info.json'']"
  let ?ip = "?dir @ [''items-info.parquet'']"
  note gp = get_target_file_path_default [OF names, of lib]
  have par: "parent ?po = ?dir" "parent ?pe = ?dir"
    by (simp_all add: parent_snoc is_root_def)
  from saved obtain fs2 where
    imgs: "save_images lib h mkdir overwrite fs = (None, fs2)" and
    rest: "(if extracted_receipt_info h \<noteq> None then save_receipt_info lib h overwrite fs2
            else (None, fs2)) = (None, fs')"
    unfolding save_def by (blast dest: and_then_None)
  from imgs obtain fs1 where
    orig: "save_original_image lib h mkdir overwrite fs = (None, fs1)" and
    edit: "save_edited_image lib h mkdir overwrite fs1 = (None, fs2)"
    unfolding save_images_def by (blast dest: and_then_None)
  from orig have "save_image_as_jpg_file lib ?po (ImagePIL (original_image h)) overwrite mkdir fs
      = (None, fs1)"
    by (simp add: save_original_image_def gp save_image_def)
  from save_image_as_jpg_file_written [OF this worig] par
  obtain b where b: "Image_save lib (original_image h) = Inr b"
    and f1: "files fs1 = (files fs)(?po \<mapsto> Binary b)"
    and d1: "\<forall>q. q \<noteq> ?dir \<longrightarrow> (q \<in> directories fs1 \<longleftrightarrow> q \<in> directories fs)"
    by auto
  have e1: "path_exists fs1 ?pe = path_exists fs ?pe"
    using f1 d1 by (simp add: path_exists_def)
  have stage2: "files fs2 ?po = Some (Binary b)
      \<and> path_exists fs2 ?sp = path_exists fs ?sp
      \<and> path_exists fs2 ?ip = path_exists fs ?ip
      \<and> (case edited_image h of
             None \<Rightarrow> \<not> path_exists fs2 ?pe
           | Some e \<Rightarrow> (\<exists>b. Image_save lib e = Inr b \<and> files fs2 ?pe = Some (Binary b)))"
  proof (cases "edited_image h")
    case None
    with edit have "fs2 = logger ERROR ''Could not save edited_image'' fs1"
      by (simp add: save_edited_image_def gp)
    with None f1 d1 e1 wedit show ?thesis
      by (simp add: logger_def path_exists_def)
  next
    case (Some e)
    with edit have s: "save_image_as_jpg_file lib ?pe (ImagePIL e) overwrite mkdir fs1 = (None, fs2)"
      by (simp add: save_edited_image_def gp save_image_def)
    from Some wedit e1 have w: "overwrite \<or> \<not> path_exists fs1 ?pe" by simp
    from save_image_as_jpg_file_written [OF s w] par
    obtain be where "Image_save lib e = Inr be"
      and "files fs2 = (files fs1)(?pe \<mapsto> Binary be)"
      and "\<forall>q. q \<noteq> ?dir \<longrightarrow> (q \<in> directories fs2 \<longleftrightarrow> q \<in> directories fs1)"
      by auto
    with Some f1 d1 show ?thesis by (simp add: path_exists_def)
  qed
  from stage2 have po2: "files fs2 ?po = Some (Binary b)"
    and sp2: "path_exists fs2 ?sp = path_exists fs ?sp"
    and ip2: "path_exists fs2 ?ip = path_exists fs ?ip"
    and e2: "case edited_image h of
             None \<Rightarrow> \<not> path_exists fs2 ?pe
           | Some e \<Rightarrow> (\<exists>b. Image_save lib e = Inr b \<and> files fs2 ?pe = Some (Binary b))"
    by blast+
  show ?thesis
  proof (cases "extracted_receipt_info h")
    case None
    with rest have eq: "fs' = fs2" by simp
    from None wextr sp2 ip2 have "\<not> path_exists fs2 ?sp" "\<not> path_exists fs2 ?ip"
      by simp_all
    with None po2 e2 b show ?thesis
      unfolding eq by simp
  next
    case (Some r)
    with rest have "save_receipt_info lib h overwrite fs2 = (None, fs')" by simp
    then obtain fs3 where
      shp: "save_shop_info lib h overwrite fs2 = (None, fs3)" and
      itm: "save_items_info lib h overwrite fs3 = (None, fs')"
      unfolding save_receipt_info_def by (blast dest: and_then_None)
    let ?sdf = "ShopFrame (map (\<lambda>row. row\<lparr>col_time := None\<rparr>) (convert_to_dataframe_shop lib r))"
    from shp Some have s: "save_dataframe ?sdf ''shop'' ?sj ?sp overwrite fs2 = (None, fs3)"
      by (simp add: save_shop_info_def gp Let_def)
    from Some wextr sp2 have ns: "overwrite \<or> \<not> path_exists fs2 ?sp"
      by auto
    from save_dataframe_written [OF s ns]
    have f3: "files fs3 ?sp = Some (ParquetFile ?sdf)"
      and o3: "\<forall>x. x \<noteq> ?sj \<longrightarrow> x \<noteq> ?sp \<longrightarrow> files fs3 x = files fs2 x"
      and d3: "directories fs3 = directories fs2"
      by simp_all
    from itm Some obtain idf where idf: "convert_to_dataframe_items r = Inr idf"
      and i: "save_dataframe (ItemsFrame idf) ''items'' ?ij ?ip overwrite fs3 = (None, fs')"
      by (cases "convert_to_dataframe_items r") (simp_all add: save_items_info_def gp)
    have "path_exists fs3 ?ip = path_exists fs2 ?ip"
      using o3 d3 by (simp add: path_exists_def)
    with Some wextr ip2 have ni: "overwrite \<or> \<not> path_exists fs3 ?ip"
      by auto
    from save_dataframe_written [OF i ni]
    have f4: "files fs' ?ip = Some (ParquetFile (ItemsFrame idf))"
      and o4: "\<forall>x. x \<noteq> ?ij \<longrightarrow> x \<noteq> ?ip \<longrightarrow> files fs' x = files fs3 x"
      and d4: "directories fs' = directories fs3"
      by simp_all
    have po: "files fs' ?po = Some (Binary b)"
      using o4 o3 po2 by simp
    have sp: "files fs' ?sp = Some (ParquetFile ?sdf)"
      using o4 f3 by simp
    have pef: "files fs' ?pe = files fs2 ?pe"
      using o4 o3 by simp
    have ped: "directories fs' = directories fs2"
      using d4 d3 by simp
    have pex: "path_exists fs' ?pe = path_exists fs2 ?pe"
      by (simp add: path_exists_def pef ped)
    have ed: "case edited_image h of
             None \<Rightarrow> \<not> path_exists fs' ?pe
           | Some e \<Rightarrow> (\<exists>b. Image_save lib e = Inr b \<and> files fs' ?pe = Some (Binary b))"
      using e2 by (simp add: pex pef split: option.splits)
    from b po ed Some idf sp f4 show ?thesis by auto
  qed
qed

lemma from_target_directory_summary:
  assumes orig: "files fs (dir @ [''original-image.jpg'']) = Some (Binary b)"
    and opened: "Image_open lib b = Inr img"
    and edited: "case ed of
             None \<Rightarrow> \<not> path_exists fs (dir @ [''edited-image.jpg''])
           | Some e \<Rightarrow> (\<exists>eb eimg. files fs (dir @ [''edited-image.jpg'']) = Some (Binary eb)
                          \<and> Image_open lib eb = Inr eimg)"
    and extracted: "case ex of
             None \<Rightarrow> \<not> path_exists fs (dir @ [''shop-info.parquet''])
                     \<and> \<not> path_exists fs (dir @ [''items-info.parquet''])
           | Some r \<Rightarrow>
               (\<exists>sdf idf. files fs (dir @ [''shop-info.parquet'']) = Some (ParquetFile sdf)
                  \<and> files fs (dir @ [''items-info.parquet'']) = Some (ParquetFile idf)
                  \<and> polars_info_dataframes_to_pydantic sdf idf = Inr r)"
  shows "\<exists>h'. from_target_directory lib fs dir = Inr h'
           \<and> target_directory h' = dir
           \<and> original_image h' = img
           \<and> original_image_bytes h' = b
           \<and> original_file_name h' = ''original-image.jpg''
           \<and> extracted_receipt_info h' = ex
           \<and> (edited_image h' = None \<longleftrightarrow> ed = None)"
proof -
  let ?h0 = "(ImageHandler_init dir img b ''original-image.jpg'')
               \<lparr>target_file_names := StoredFileNames_init\<rparr>"
  have gp: "\<And>h. target_file_names h = StoredFileNames_init \<Longrightarrow> target_directory h = dir \<Longrightarrow>
      get_target_file_path lib h ''edited_image'' = Inr (dir @ [''edited-image.jpg''])
      \<and> get_target_file_path lib h ''shop_info_parquet'' = Inr (dir @ [''shop-info.parquet''])
      \<and> get_target_file_path lib h ''items_info_parquet'' = Inr (dir @ [''items-info.parquet''])"
    using get_target_file_path_default [of _ lib] by auto
  have h0: "target_file_names ?h0 = StoredFileNames_init" "target_directory ?h0 = dir"
    by (simp_all add: ImageHandler_init_def)
  obtain h1 where h1: "(if path_exists fs (dir @ [''edited-image.jpg''])
               then bind_result (Image_open_path lib fs (dir @ [''edited-image.jpg'']))
                      (\<lambda>edited. Inr (?h0\<lparr>edited_image := Some edited\<rparr>))
               else Inr ?h0) = Inr h1"
    and h1e: "edited_image h1 = None \<longleftrightarrow> ed = None"
    and h1r: "h1\<lparr>edited_image := None\<rparr> = ?h0"
  proof (cases ed)
    case None
    with edited have "\<not> path_exists fs (dir @ [''edited-image.jpg''])" by simp
    with None that [of ?h0] show ?thesis by (simp add: ImageHandler_init_def)
  next
    case (Some e)
    with edited obtain eb eimg
      where "files fs (dir @ [''edited-image.jpg'']) = Some (Binary eb)"
        and "Image_open lib eb = Inr eimg"
      by auto
    with Some that [of "?h0\<lparr>edited_image := Some eimg\<rparr>"] show ?thesis
      by (simp add: path_exists_def Image_open_path_def file_bytes_def bind_result_def
          ImageHandler_init_def)
  qed
  have h1n: "target_file_names h1 = StoredFileNames_init" "target_directory h1 = dir"
    "original_image h1 = img" "original_image_bytes h1 = b"
    "original_file_name h1 = ''original-image.jpg''" "extracted_receipt_info h1 = None"
    using arg_cong [OF h1r, of target_file_names] arg_cong [OF h1r, of target_directory]
      arg_cong [OF h1r, of original_image] arg_cong [OF h1r, of original_image_bytes]
      arg_cong [OF h1r, of original_file_name] arg_cong [OF h1r, of extracted_receipt_info]
    by (simp_all add: ImageHandler_init_def)
  have start: "from_target_directory lib fs dir =
      bind_result (get_target_file_path lib ?h0 ''edited_image'') (\<lambda>edited_image_path.
        bind_result
          (if path_exists fs edited_image_path
           then bind_result (Image_open_path lib fs edited_image_path)
                  (\<lambda>edited. Inr (?h0\<lparr>edited_image := Some edited\<rparr>))
           else Inr ?h0) (\<lambda>handler.
        bind_result (get_target_file_path lib handler ''shop_info_parquet'') (\<lambda>shop_path.
        bind_result
          (if path_exists fs shop_path then map_sum id Some (read_parquet fs shop_path)
           else Inr None) (\<lambda>shop_df.
        bind_result (get_target_file_path lib handler ''items_info_parquet'') (\<lambda>items_path.
        bind_result
          (if path_exists fs items_path then map_sum id Some (read_parquet fs items_path)
           else Inr None) (\<lambda>items_df.
        (case (shop_df, items_df) of
           (Some sdf, Some idf) \<Rightarrow>
             bind_result (polars_info_dataframes_to_pydantic sdf idf)
               (\<lambda>receipt. Inr (handler\<lparr>extracted_receipt_info := Some receipt\<rparr>))
         | _ \<Rightarrow> Inr handler)))))))"
  proof -
    have on: "original_image_name StoredFileNames_init = ''original-image.jpg''"
      by (simp add: StoredFileNames_init_def)
    have nm: "name (dir @ [''original-image.jpg'']) = ''original-image.jpg''"
      by (simp add: name_snoc is_root_def)
    have op: "Image_open_path lib fs (dir @ [''original-image.jpg'']) = Inr img"
      by (simp add: Image_open_path_def orig file_bytes_def opened)
    have rd: "read_bytes lib fs (dir @ [''original-image.jpg'']) = Inr b"
      by (simp add: read_bytes_def orig file_bytes_def)
    show ?thesis
      unfolding from_target_directory_def Let_def on truediv_default_names nm op rd
      by (simp add: bind_result_def)
  qed
  have unfold: "from_target_directory lib fs dir =
      bind_result
        (if path_exists fs (dir @ [''shop-info.parquet''])
         then map_sum id Some (read_parquet fs (dir @ [''shop-info.parquet''])) else Inr None)
        (\<lambda>shop_df.
           bind_result
             (if path_exists fs (dir @ [''items-info.parquet''])
              then map_sum id Some (read_parquet fs (dir @ [''items-info.parquet'']))
              else Inr None)
             (\<lambda>items_df.
                case (shop_df, items_df) of
                  (Some sdf, Some idf) \<Rightarrow>
                    bind_result (polars_info_dataframes_to_pydantic sdf idf)
                      (\<lambda>receipt. Inr (h1\<lparr>extracted_receipt_info := Some receipt\<rparr>))
                | _ \<Rightarrow> Inr h1))"
  proof -
    have br: "\<And>x f. bind_result (Inr x) f = f x"
      by (simp add: bind_result_def)
    from gp [OF h0] have g0:
      "get_target_file_path lib ?h0 ''edited_image'' = Inr (dir @ [''edited-image.jpg''])"
      by simp
    from gp [OF h1n(1,2)] have g1:
      "get_target_file_path lib h1 ''shop_info_parquet'' = Inr (dir @ [''shop-info.parquet''])"
      "get_target_file_path lib h1 ''items_info_parquet'' = Inr (dir @ [''items-info.parquet''])"
      by simp_all
    show ?thesis
      unfolding start g0 br h1 g1 by (rule refl)
  qed
  show ?thesis
  proof (cases ex)
    case None
    with extracted unfold have "from_target_directory lib fs dir = Inr h1"
      by (simp add: bind_result_def)
    with None h1n h1e show ?thesis by simp
  next
    case (Some r)
    with extracted obtain sdf idf
      where "files fs (dir @ [''shop-info.parquet'']) = Some (ParquetFile sdf)"
        and "files fs (dir @ [''items-info.parquet'']) = Some (ParquetFile idf)"
        and "polars_info_dataframes_to_pydantic sdf idf = Inr r"
      by auto
    with unfold have "from_target_directory lib fs dir = Inr (h1\<lparr>extracted_receipt_info := Some r\<rparr>)"
      by (simp add: bind_result_def path_exists_def read_parquet_def)
    with Some h1n h1e show ?thesis by simp
  qed
qed


lemma example_save:
  "save example_library example_handler True False example_disk = (None, example_saved_disk)"
  by (simp add: save_def save_images_def save_original_image_def save_edited_image_def
      save_image_def save_image_as_jpg_file_def save_receipt_info_def save_shop_info_def
      save_items_info_def save_dataframe_def get_target_file_path_def
      StoredFileNames_getattr_def and_then_def mkdir_path_def write_file_def path_exists_def
      logger_def Let_def example_library_def example_handler_def example_disk_def
      example_saved_disk_def example_receipt_def ImageHandler_init_def StoredFileNames_init_def
      truediv_default_names parent_def is_root_def convert_to_dataframe_items_def
      convert_to_dataframe_shop_def fits_Int64_def Item_model_dump_def Shop_date_def
      Shop_time_def insert_commute)

lemma example_save_again:
  "save example_library (example_handler\<lparr>extracted_receipt_info := Some (example_receipt\<lparr>items := []\<rparr>)\<rparr>)
     True False example_saved_disk =
   (None, example_saved_disk\<lparr>logged :=
      [(ERROR, ''Could not save edited_image''),
       (WARNING, ''File already exists, skipping creation.''),
       (ERROR, ''Could not save edited_image'')]\<rparr>)"
  by (simp add: save_def save_images_def save_original_image_def save_edited_image_def
      save_image_def save_image_as_jpg_file_def save_receipt_info_def save_shop_info_def
      save_items_info_def save_dataframe_def get_target_file_path_def
      StoredFileNames_getattr_def and_then_def mkdir_path_def write_file_def path_exists_def
      logger_def Let_def example_library_def example_handler_def example_disk_def
      example_saved_disk_def example_receipt_def ImageHandler_init_def StoredFileNames_init_def
      truediv_default_names parent_def is_root_def convert_to_dataframe_items_def
      convert_to_dataframe_shop_def fits_Int64_def Item_model_dump_def Shop_date_def
      Shop_time_def)

lemma example_save_overwrite:
  "fst (save example_library (example_handler\<lparr>extracted_receipt_info := Some (example_receipt\<lparr>items := []\<rparr>)\<rparr>)
          True True example_saved_disk) = None"
  by (simp add: save_def save_images_def save_original_image_def save_edited_image_def
      save_image_def save_image_as_jpg_file_def save_receipt_info_def save_shop_info_def
      save_items_info_def save_dataframe_def get_target_file_path_def
      StoredFileNames_getattr_def and_then_def mkdir_path_def write_file_def path_exists_def
      logger_def Let_def example_library_def example_handler_def example_disk_def
      example_saved_disk_def example_receipt_def ImageHandler_init_def StoredFileNames_init_def
      truediv_default_names parent_def is_root_def convert_to_dataframe_items_def
      convert_to_dataframe_shop_def fits_Int64_def Item_model_dump_def Shop_date_def
      Shop_time_def)

lemma example_save_reencoded:
  "fst (save reencoding_library example_handler True False example_disk) = None"
  by (simp add: reencoding_library_def save_def save_images_def save_original_image_def save_edited_image_def
      save_image_def save_image_as_jpg_file_def save_receipt_info_def save_shop_info_def
      save_items_info_def save_dataframe_def get_target_file_path_def
      StoredFileNames_getattr_def and_then_def mkdir_path_def write_file_def path_exists_def
      logger_def Let_def example_library_def example_handler_def example_disk_def
      example_saved_disk_def example_receipt_def ImageHandler_init_def StoredFileNames_init_def
      truediv_default_names parent_def is_root_def convert_to_dataframe_items_def
      convert_to_dataframe_shop_def fits_Int64_def Item_model_dump_def Shop_date_def
      Shop_time_def)

lemma example_reload:
  "\<exists>h'. from_target_directory example_library (example_saved_disk\<lparr>logged := l\<rparr>)
            [''/'', ''data'', ''extraction'', ''receipt.jpg-0a''] = Inr h'
     \<and> original_image_bytes h' = ''jpeg''
     \<and> original_file_name h' = ''original-image.jpg''
     \<and> extracted_receipt_info h' = Some example_receipt"
proof -
  have r: "polars_info_dataframes_to_pydantic
      (ShopFrame [\<lparr>col_name = Some ''Edeka'', col_date = None, col_time = None,
                  col_total = Some 2, col_date_str = Some ''2021-05-13'',
                  col_time_str = Some ''16:46''\<rparr>])
      (ItemsFrame [\<lparr>icol_name = Some ''BIO BANANEN'', icol_price = Some 2, icol_count = Some 1,
                  icol_mass = None, icol_tax = Some ''A'', icol_category = Some ''Fruits''\<rparr>])
      = Inr example_receipt"
    by (simp add: polars_info_dataframes_to_pydantic_def Shop_init_def Item_init_def
        bind_result_def CategoryEnum_of_def CategoryEnum_members_def example_receipt_def)
  from from_target_directory_summary
    [where fs = "example_saved_disk\<lparr>logged := l\<rparr>"
       and dir = "[''/'', ''data'', ''extraction'', ''receipt.jpg-0a'']"
       and b = "''jpeg''" and lib = example_library and img = "''jpeg''"
       and ed = "None :: bytes option" and ex = "Some example_receipt"]
  show ?thesis
    using r
    by (simp add: example_saved_disk_def example_library_def path_exists_def) blast
qed

lemma example_handler_fields:
  "target_file_names example_handler = StoredFileNames_init"
  "target_directory example_handler = [''/'', ''data'', ''extraction'', ''receipt.jpg-0a'']"
  "original_file_name example_handler = ''receipt.jpg''"
  "original_image example_handler = ''jpeg''"
  "original_image_bytes example_handler = ''jpeg''"
  "edited_image example_handler = None"
  "extracted_receipt_info example_handler = Some example_receipt"
  by (simp_all add: example_handler_def ImageHandler_init_def)

text \<open>
  What a save that returns leaves for \<open>from_target_directory\<close>, when every artifact
  file that was in the directory before is one that this save overwrites.
\<close>

lemma save_reload:
  assumes names: "target_file_names h = StoredFileNames_init"
    and written: "\<forall>nm p. get_target_file_path lib h nm = Inr p \<longrightarrow> path_exists fs p \<longrightarrow>
        (nm = ''original_image'' \<longrightarrow> overwrite)
        \<and> (nm = ''edited_image'' \<longrightarrow> overwrite \<and> edited_image h \<noteq> None)
        \<and> (nm = ''shop_info_parquet'' \<or> nm = ''items_info_parquet'' \<longrightarrow>
             overwrite \<and> extracted_receipt_info h \<noteq> None)"
    and saved: "save lib h mkdir overwrite fs = (None, fs')"
    and opens: "\<forall>img b. Image_save lib img = Inr b \<longrightarrow> (\<exists>img'. Image_open lib b = Inr img')"
  shows "\<exists>h' b. from_target_directory lib fs' (target_directory h) = Inr h'
           \<and> Image_save lib (original_image h) = Inr b
           \<and> original_image_bytes h' = b
           \<and> original_file_name h' = ''original-image.jpg''
           \<and> extracted_receipt_info h' = extracted_receipt_info h
           \<and> target_directory h' = target_directory h
           \<and> (edited_image h' = None \<longleftrightarrow> edited_image h = None)"
proof -
  let ?dir = "target_directory h"
  note gp = get_target_file_path_default [OF names, of lib]
  note w = written [rule_format]
  have worig: "overwrite \<or> \<not> path_exists fs (?dir @ [''original-image.jpg''])"
    using w [OF gp(1)] by auto
  have we:
    "path_exists fs (?dir @ [''edited-image.jpg'']) \<longrightarrow> overwrite \<and> edited_image h \<noteq> None"
    using w [OF gp(2)] by simp
  have ws:
    "path_exists fs (?dir @ [''shop-info.parquet'']) \<longrightarrow>
       overwrite \<and> extracted_receipt_info h \<noteq> None"
    using w [OF gp(4)] by simp
  have wi:
    "path_exists fs (?dir @ [''items-info.parquet'']) \<longrightarrow>
       overwrite \<and> extracted_receipt_info h \<noteq> None"
    using w [OF gp(6)] by simp
  from we have wedit: "case edited_image h of
                  None \<Rightarrow> \<not> path_exists fs (?dir @ [''edited-image.jpg''])
                | Some e \<Rightarrow> overwrite \<or> \<not> path_exists fs (?dir @ [''edited-image.jpg''])"
    by (auto split: option.splits)
  from ws wi have wextr: "case extracted_receipt_info h of
                  None \<Rightarrow> \<not> path_exists fs (?dir @ [''shop-info.parquet''])
                          \<and> \<not> path_exists fs (?dir @ [''items-info.parquet''])
                | Some r \<Rightarrow>
                    overwrite
                    \<or> (\<not> path_exists fs (?dir @ [''shop-info.parquet''])
                       \<and> \<not> path_exists fs (?dir @ [''items-info.parquet'']))"
    by (auto split: option.splits)
  note sm = save_summary [OF names worig wedit wextr saved]
  from sm obtain b where b: "Image_save lib (original_image h) = Inr b"
    and po: "files fs' (?dir @ [''original-image.jpg'']) = Some (Binary b)"
    by blast
  from opens b obtain img where img: "Image_open lib b = Inr img" by blast
  from sm have ed0: "case edited_image h of
             None \<Rightarrow> \<not> path_exists fs' (?dir @ [''edited-image.jpg''])
           | Some e \<Rightarrow>
               (\<exists>b. Image_save lib e = Inr b
                  \<and> files fs' (?dir @ [''edited-image.jpg'']) = Some (Binary b))"
    by blast
  have ed: "case edited_image h of
             None \<Rightarrow> \<not> path_exists fs' (?dir @ [''edited-image.jpg''])
           | Some e \<Rightarrow> (\<exists>eb eimg. files fs' (?dir @ [''edited-image.jpg'']) = Some (Binary eb)
                          \<and> Image_open lib eb = Inr eimg)"
  proof (cases "edited_image h")
    case None
    with ed0 show ?thesis by simp
  next
    case (Some e)
    with ed0 obtain eb where "Image_save lib e = Inr eb"
      "files fs' (?dir @ [''edited-image.jpg'']) = Some (Binary eb)"
      by auto
    with opens Some show ?thesis by auto
  qed
  from sm have ex0: "case extracted_receipt_info h of
             None \<Rightarrow> \<not> path_exists fs' (?dir @ [''shop-info.parquet''])
                     \<and> \<not> path_exists fs' (?dir @ [''items-info.parquet''])
           | Some r \<Rightarrow>
               (\<exists>idf. convert_to_dataframe_items r = Inr idf
                  \<and> files fs' (?dir @ [''shop-info.parquet'']) =
                      Some (ParquetFile (ShopFrame (map (\<lambda>row. row\<lparr>col_time := None\<rparr>)
                                                    (convert_to_dataframe_shop lib r))))
                  \<and> files fs' (?dir @ [''items-info.parquet'']) =
                      Some (ParquetFile (ItemsFrame idf)))"
    by blast
  have ex: "case extracted_receipt_info h of
             None \<Rightarrow> \<not> path_exists fs' (?dir @ [''shop-info.parquet''])
                     \<and> \<not> path_exists fs' (?dir @ [''items-info.parquet''])
           | Some r \<Rightarrow>
               (\<exists>sdf idf. files fs' (?dir @ [''shop-info.parquet'']) = Some (ParquetFile sdf)
                  \<and> files fs' (?dir @ [''items-info.parquet'']) = Some (ParquetFile idf)
                  \<and> polars_info_dataframes_to_pydantic sdf idf = Inr r)"
  proof (cases "extracted_receipt_info h")
    case None
    with ex0 show ?thesis by simp
  next
    case (Some r)
    with ex0 obtain idf where "convert_to_dataframe_items r = Inr idf"
      "files fs' (?dir @ [''shop-info.parquet'']) =
         Some (ParquetFile (ShopFrame (map (\<lambda>row. row\<lparr>col_time := None\<rparr>)
                                        (convert_to_dataframe_shop lib r))))"
      "files fs' (?dir @ [''items-info.parquet'']) = Some (ParquetFile (ItemsFrame idf))"
      by auto
    with Some receipt_roundtrip [of r idf lib] show ?thesis by auto
  qed
  from from_target_directory_summary [OF po img ed ex] obtain h' where
    hh: "from_target_directory lib fs' ?dir = Inr h'" "target_directory h' = ?dir"
      "original_image_bytes h' = b" "original_file_name h' = ''original-image.jpg''"
      "extracted_receipt_info h' = extracted_receipt_info h"
      "edited_image h' = None \<longleftrightarrow> edited_image h = None"
    by auto
  show ?thesis
    by (intro exI [of _ h'] exI [of _ b]) (simp add: hh b)
qed

lemma example_disk_fresh:
  "\<forall>nm p. get_target_file_path lib example_handler nm = Inr p \<longrightarrow> path_exists example_disk p \<longrightarrow>
        (nm = ''original_image'' \<longrightarrow> False)
        \<and> (nm = ''edited_image'' \<longrightarrow> False \<and> edited_image example_handler \<noteq> None)
        \<and> (nm = ''shop_info_parquet'' \<or> nm = ''items_info_parquet'' \<longrightarrow>
             False \<and> extracted_receipt_info example_handler \<noteq> None)"
  by (auto simp add: get_target_file_path_default [OF example_handler_fields(1)]
      example_handler_fields path_exists_def example_disk_def)

lemma example_opens:
  "\<forall>img b. Image_save example_library img = Inr b \<longrightarrow>
      (\<exists>img'. Image_open example_library b = Inr img')"
  "\<forall>img b. Image_save reencoding_library img = Inr b \<longrightarrow>
      (\<exists>img'. Image_open reencoding_library b = Inr img')"
  by (auto simp add: example_library_def reencoding_library_def)

lemma example_saved_disk_overwritten:
  "\<forall>nm p. get_target_file_path lib (example_handler\<lparr>extracted_receipt_info := Some (example_receipt\<lparr>items := []\<rparr>)\<rparr>) nm = Inr p \<longrightarrow> path_exists example_saved_disk p \<longrightarrow>
        (nm = ''original_image'' \<longrightarrow> True)
        \<and> (nm = ''edited_image'' \<longrightarrow> True \<and> edited_image (example_handler\<lparr>extracted_receipt_info := Some (example_receipt\<lparr>items := []\<rparr>)\<rparr>) \<noteq> None)
        \<and> (nm = ''shop_info_parquet'' \<or> nm = ''items_info_parquet'' \<longrightarrow>
             True \<and> extracted_receipt_info (example_handler\<lparr>extracted_receipt_info := Some (example_receipt\<lparr>items := []\<rparr>)\<rparr>) \<noteq> None)"
proof (intro allI impI)
  fix nm p
  let ?h = "(example_handler\<lparr>extracted_receipt_info := Some (example_receipt\<lparr>items := []\<rparr>)\<rparr>)"
  assume g: "get_target_file_path lib ?h nm = Inr p"
    and e: "path_exists example_saved_disk p"
  have names: "target_file_names ?h = StoredFileNames_init"
    by (simp add: example_handler_fields)
  have ne: "\<not> path_exists example_saved_disk (target_directory ?h @ [''edited-image.jpg''])"
    by (simp add: path_exists_def example_saved_disk_def example_handler_fields)
  have x: "extracted_receipt_info ?h \<noteq> None"
    by simp
  have n: "nm \<noteq> ''edited_image''"
  proof
    assume "nm = ''edited_image''"
    with g get_target_file_path_default(2) [OF names, of lib]
    have "p = target_directory ?h @ [''edited-image.jpg'']" by simp
    with e ne show False by simp
  qed
  from n x show "(nm = ''original_image'' \<longrightarrow> True)
        \<and> (nm = ''edited_image'' \<longrightarrow> True \<and> edited_image ?h \<noteq> None)
        \<and> (nm = ''shop_info_parquet'' \<or> nm = ''items_info_parquet'' \<longrightarrow>
             True \<and> extracted_receipt_info ?h \<noteq> None)"
    by simp
qed

text \<open>
  C5, as the specification states it, fails in three ways. A handler for the upload
  \<open>receipt.jpg\<close> that is saved into a new target directory comes back from
  \<open>from_target_directory\<close> with the file name \<open>original-image.jpg\<close>, the name of
  the stored file. With an encoder that does not reproduce the bytes the image was read
  from, it comes back with the encoder's bytes. And a handler whose receipt has been
  changed and that is saved without overwrite into the directory that holds the earlier
  files comes back with the earlier receipt.
\<close>

theorem save_reload_counterexample:
  "original_file_name example_handler = ''receipt.jpg''
   \<and> fst (save example_library example_handler True False example_disk) = None
   \<and> map_sum id original_file_name
        (from_target_directory example_library
           (snd (save example_library example_handler True False example_disk))
           (target_directory example_handler)) = Inr ''original-image.jpg''
   \<and> original_image_bytes example_handler = ''jpeg''
   \<and> fst (save reencoding_library example_handler True False example_disk) = None
   \<and> map_sum id original_image_bytes
        (from_target_directory reencoding_library
           (snd (save reencoding_library example_handler True False example_disk))
           (target_directory example_handler)) = Inr ''JFIFjpeg''
   \<and> fst (save example_library
            (example_handler\<lparr>extracted_receipt_info := Some (example_receipt\<lparr>items := []\<rparr>)\<rparr>)
            True False example_saved_disk) = None
   \<and> map_sum id extracted_receipt_info
        (from_target_directory example_library
           (snd (save example_library
                   (example_handler\<lparr>extracted_receipt_info := Some (example_receipt\<lparr>items := []\<rparr>)\<rparr>)
                   True False example_saved_disk))
           (target_directory example_handler)) = Inr (Some example_receipt)
   \<and> example_receipt\<lparr>items := []\<rparr> \<noteq> example_receipt"
proof -
  note d = example_handler_fields(2)
  from example_reload [of "logged example_saved_disk"] obtain h1 where
    "from_target_directory example_library example_saved_disk
        [''/'', ''data'', ''extraction'', ''receipt.jpg-0a''] = Inr h1"
    "original_file_name h1 = ''original-image.jpg''"
    by auto
  then have 1: "map_sum id original_file_name
        (from_target_directory example_library example_saved_disk
           [''/'', ''data'', ''extraction'', ''receipt.jpg-0a'']) = Inr ''original-image.jpg''"
    by simp
  from example_reload obtain h2 where
    "from_target_directory example_library
        (example_saved_disk\<lparr>logged :=
          [(ERROR, ''Could not save edited_image''),
           (WARNING, ''File already exists, skipping creation.''),
           (ERROR, ''Could not save edited_image'')]\<rparr>)
        [''/'', ''data'', ''extraction'', ''receipt.jpg-0a''] = Inr h2"
    "extracted_receipt_info h2 = Some example_receipt"
    by blast
  then have 2: "map_sum id extracted_receipt_info
        (from_target_directory example_library
        (example_saved_disk\<lparr>logged :=
          [(ERROR, ''Could not save edited_image''),
           (WARNING, ''File already exists, skipping creation.''),
           (ERROR, ''Could not save edited_image'')]\<rparr>)
        [''/'', ''data'', ''extraction'', ''receipt.jpg-0a'']) = Inr (Some example_receipt)"
    by simp
  have 3: "example_receipt\<lparr>items := []\<rparr> \<noteq> example_receipt"
  proof
    assume "example_receipt\<lparr>items := []\<rparr> = example_receipt"
    then have "items (example_receipt\<lparr>items := []\<rparr>) = items example_receipt" by simp
    then show False by (simp add: example_receipt_def)
  qed
  let ?fs = "snd (save reencoding_library example_handler True False example_disk)"
  have saved: "save reencoding_library example_handler True False example_disk = (None, ?fs)"
    using example_save_reencoded
    by (cases "save reencoding_library example_handler True False example_disk") simp
  have enc: "Image_save reencoding_library (original_image example_handler) = Inr ''JFIFjpeg''"
    by (simp add: reencoding_library_def example_handler_fields)
  from save_reload [OF example_handler_fields(1) example_disk_fresh saved example_opens(2)]
  obtain h3 b where
    "from_target_directory reencoding_library ?fs (target_directory example_handler) = Inr h3"
    "Image_save reencoding_library (original_image example_handler) = Inr b"
    "original_image_bytes h3 = b"
    by auto
  with enc have 4: "map_sum id original_image_bytes
        (from_target_directory reencoding_library ?fs (target_directory example_handler))
          = Inr ''JFIFjpeg''"
    by simp
  have 5: "fst (save example_library example_handler True False example_disk) = None"
    "snd (save example_library example_handler True False example_disk) = example_saved_disk"
    by (simp_all add: example_save)
  have 6: "fst (save example_library (example_handler\<lparr>extracted_receipt_info := Some (example_receipt\<lparr>items := []\<rparr>)\<rparr>) True False example_saved_disk) = None"
    "snd (save example_library (example_handler\<lparr>extracted_receipt_info := Some (example_receipt\<lparr>items := []\<rparr>)\<rparr>) True False example_saved_disk) =
       example_saved_disk\<lparr>logged :=
          [(ERROR, ''Could not save edited_image''),
           (WARNING, ''File already exists, skipping creation.''),
           (ERROR, ''Could not save edited_image'')]\<rparr>"
    by (simp_all add: example_save_again)
  show ?thesis
    unfolding 5 6
    using 1 2 3 4 example_save_reencoded
    by (simp add: example_handler_fields)
qed

text \<open>
  C5, amended: let a handler with the default file names be saved, let \<open>save\<close>
  return without an error, and let every artifact file (original image, edited image,
  the two parquet files) that was in the target directory before be one that this save
  overwrites (\<open>overwrite\<close> is true and the handler has that artifact). Then
  \<open>from_target_directory\<close> on that directory returns a handler with the same target
  directory and the same extracted receipt, whose original file name is
  \<open>original-image.jpg\<close>, the name of the stored file, and whose original image
  bytes are the saved handler's whenever saving its original image wrote exactly these
  bytes. That Pillow opens what it has written is assumed of the library.
\<close>

theorem save_from_target_directory:
  assumes names: "target_file_names h = StoredFileNames_init"
    and written: "\<forall>nm p. get_target_file_path lib h nm = Inr p \<longrightarrow> path_exists fs p \<longrightarrow>
        (nm = ''original_image'' \<longrightarrow> overwrite)
        \<and> (nm = ''edited_image'' \<longrightarrow> overwrite \<and> edited_image h \<noteq> None)
        \<and> (nm = ''shop_info_parquet'' \<or> nm = ''items_info_parquet'' \<longrightarrow>
             overwrite \<and> extracted_receipt_info h \<noteq> None)"
    and saved: "save lib h mkdir overwrite fs = (None, fs')"
    and opens: "\<forall>img b. Image_save lib img = Inr b \<longrightarrow> (\<exists>img'. Image_open lib b = Inr img')"
  shows "\<exists>h'. from_target_directory lib fs' (target_directory h) = Inr h'
           \<and> target_directory h' = target_directory h
           \<and> original_file_name h' = ''original-image.jpg''
           \<and> extracted_receipt_info h' = extracted_receipt_info h
           \<and> (Image_save lib (original_image h) = Inr (original_image_bytes h) \<longrightarrow>
                original_image_bytes h' = original_image_bytes h)"
proof -
  from save_reload [OF names written saved opens] obtain h' b where
    hh: "from_target_directory lib fs' (target_directory h) = Inr h'"
      "Image_save lib (original_image h) = Inr b"
      "original_image_bytes h' = b"
      "original_file_name h' = ''original-image.jpg''"
      "extracted_receipt_info h' = extracted_receipt_info h"
      "target_directory h' = target_directory h"
    by auto
  show ?thesis
    by (rule exI [of _ h']) (auto simp add: hh)
qed

theorem save_from_target_directory_witness:
  "(\<exists>h'. from_target_directory example_library
           (snd (save example_library example_handler True False example_disk))
           (target_directory example_handler) = Inr h'
      \<and> original_image_bytes h' = ''jpeg''
      \<and> original_file_name h' = ''original-image.jpg''
      \<and> extracted_receipt_info h' = Some example_receipt)
   \<and> (\<exists>h'. from_target_directory example_library
           (snd (save example_library (example_handler\<lparr>extracted_receipt_info := Some (example_receipt\<lparr>items := []\<rparr>)\<rparr>) True True example_saved_disk))
           (target_directory example_handler) = Inr h'
      \<and> original_image_bytes h' = ''jpeg''
      \<and> original_file_name h' = ''original-image.jpg''
      \<and> extracted_receipt_info h' = Some (example_receipt\<lparr>items := []\<rparr>))"
proof -
  have saved1: "save example_library example_handler True False example_disk =
      (None, snd (save example_library example_handler True False example_disk))"
    by (simp add: example_save)
  have saved2: "save example_library (example_handler\<lparr>extracted_receipt_info := Some (example_receipt\<lparr>items := []\<rparr>)\<rparr>) True True example_saved_disk =
      (None, snd (save example_library (example_handler\<lparr>extracted_receipt_info := Some (example_receipt\<lparr>items := []\<rparr>)\<rparr>) True True example_saved_disk))"
    using example_save_overwrite
    by (cases "save example_library (example_handler\<lparr>extracted_receipt_info := Some (example_receipt\<lparr>items := []\<rparr>)\<rparr>) True True example_saved_disk") simp
  have names2: "target_file_names (example_handler\<lparr>extracted_receipt_info := Some (example_receipt\<lparr>items := []\<rparr>)\<rparr>) = StoredFileNames_init"
    by (simp add: example_handler_fields)
  have enc: "Image_save example_library ''jpeg'' = Inr ''jpeg''"
    by (simp add: example_library_def)
  from save_from_target_directory
    [OF example_handler_fields(1) example_disk_fresh saved1 example_opens(1)]
  have 1: "\<exists>h'. from_target_directory example_library
           (snd (save example_library example_handler True False example_disk))
           (target_directory example_handler) = Inr h'
      \<and> original_image_bytes h' = ''jpeg''
      \<and> original_file_name h' = ''original-image.jpg''
      \<and> extracted_receipt_info h' = Some example_receipt"
    by (auto simp add: example_handler_fields enc)
  from save_from_target_directory
    [OF names2 example_saved_disk_overwritten saved2 example_opens(1)]
  have 2: "\<exists>h'. from_target_directory example_library
           (snd (save example_library (example_handler\<lparr>extracted_receipt_info := Some (example_receipt\<lparr>items := []\<rparr>)\<rparr>) True True example_saved_disk))
           (target_directory example_handler) = Inr h'
      \<and> original_image_bytes h' = ''jpeg''
      \<and> original_file_name h' = ''original-image.jpg''
      \<and> extracted_receipt_info h' = Some (example_receipt\<lparr>items := []\<rparr>)"
    by (auto simp add: example_handler_fields enc)
  from 1 2 show ?thesis by (rule conjI)
qed

end
